theory Spec2Isabelle
  imports Main
begin

section \<open>Python values and their text\<close>

text \<open>
  The export engine of \<^verbatim>\<open>export_utils.py\<close> receives arbitrary nested Python data.
  A value is \<^verbatim>\<open>None\<close>, a boolean, an unbounded integer, a float, a string, a list or
  a dictionary with string keys (the annotations of the module say
  \<^verbatim>\<open>Dict[str, Any]\<close>). A dictionary is an association list in insertion order.
  The engine never computes with a float, it only prints it, so a float is kept as
  the text that \<^verbatim>\<open>repr\<close> gives for it. Strings are taken to be ASCII text.
\<close>

datatype pyval =
    PNone
  | PBool bool
  | PInt int
  | PFloat string
  | PStr string
  | PList "pyval list"
  | PDict "(string \<times> pyval) list"

type_synonym pydict = "(string \<times> pyval) list"

definition keys :: "pydict \<Rightarrow> string list" where
  "keys d = map fst d"

text \<open>\<^verbatim>\<open>d.get(k, default)\<close>\<close>

definition get :: "pydict \<Rightarrow> string \<Rightarrow> pyval \<Rightarrow> pyval" where
  "get d k dflt = (case map_of d k of Some v \<Rightarrow> v | None \<Rightarrow> dflt)"

fun is_dict :: "pyval \<Rightarrow> bool" where
  "is_dict (PDict d) = True"
| "is_dict v = False"

fun is_list :: "pyval \<Rightarrow> bool" where
  "is_list (PList xs) = True"
| "is_list v = False"

fun the_dict :: "pyval \<Rightarrow> pydict" where
  "the_dict (PDict d) = d"
| "the_dict v = []"

subsection \<open>String methods\<close>

definition startswith :: "string \<Rightarrow> string \<Rightarrow> bool" where
  "startswith s pre = (take (length pre) s = pre)"

definition endswith :: "string \<Rightarrow> string \<Rightarrow> bool" where
  "endswith s suf = (length suf \<le> length s \<and> drop (length s - length suf) s = suf)"

definition lower_char :: "char \<Rightarrow> char" where
  "lower_char c = (let n = (of_char c :: nat) in
     if 65 \<le> n \<and> n \<le> 90 then char_of (n + 32) else c)"

definition lower :: "string \<Rightarrow> string" where
  "lower s = map lower_char s"

text \<open>\<^verbatim>\<open>s.lstrip('.')\<close>\<close>

definition lstrip_dot :: "string \<Rightarrow> string" where
  "lstrip_dot s = dropWhile (\<lambda>c. c = CHR ''.'') s"

text \<open>\<^verbatim>\<open>s.rfind(c)\<close>: the index of the last occurrence, or -1.\<close>

definition rfind :: "char \<Rightarrow> string \<Rightarrow> int" where
  "rfind c s = (if c \<in> set s
     then int (length s) - 1 - int (length (takeWhile (\<lambda>x. x \<noteq> c) (rev s)))
     else - 1)"

text \<open>\<^verbatim>\<open>sep.join(parts)\<close>\<close>

fun str_join :: "string \<Rightarrow> string list \<Rightarrow> string" where
  "str_join sep [] = []"
| "str_join sep [x] = x"
| "str_join sep (x # y # ys) = x @ sep @ str_join sep (y # ys)"

subsection \<open>\<^verbatim>\<open>str\<close> and \<^verbatim>\<open>repr\<close>\<close>

fun digits10 :: "nat \<Rightarrow> string" where
  "digits10 n = (if n < 10 then [char_of (48 + n)]
     else digits10 (n div 10) @ [char_of (48 + n mod 10)])"

declare digits10.simps [simp del]

definition int_str :: "int \<Rightarrow> string" where
  "int_str i = (if i < 0 then CHR ''-'' # digits10 (nat (- i)) else digits10 (nat i))"

definition hex_digit :: "nat \<Rightarrow> char" where
  "hex_digit n = ''0123456789abcdef'' ! n"

text \<open>
  \<^verbatim>\<open>repr\<close> of a string: single quotes, unless the text has a single quote and no
  double quote; the quote and the backslash are escaped, tab, newline and carriage
  return get their letter, other control characters their hexadecimal code.
\<close>

definition repr_quote :: "string \<Rightarrow> char" where
  "repr_quote s = (if CHR 0x27 \<in> set s \<and> CHR 0x22 \<notin> set s then CHR 0x22 else CHR 0x27)"

definition repr_char :: "char \<Rightarrow> char \<Rightarrow> string" where
  "repr_char q c = (let n = (of_char c :: nat) in
     if c = q \<or> c = CHR 0x5C then [CHR 0x5C, c]
     else if c = CHR 0x09 then [CHR 0x5C, CHR ''t'']
     else if c = CHR 0x0A then [CHR 0x5C, CHR ''n'']
     else if c = CHR 0x0D then [CHR 0x5C, CHR ''r'']
     else if n < 32 \<or> n = 127
       then [CHR 0x5C, CHR ''x'', hex_digit (n div 16), hex_digit (n mod 16)]
     else [c])"

definition str_repr :: "string \<Rightarrow> string" where
  "str_repr s = (let q = repr_quote s in q # concat (map (repr_char q) s) @ [q])"

fun py_repr :: "pyval \<Rightarrow> string"
  and repr_items :: "pyval list \<Rightarrow> string"
  and repr_entries :: "(string \<times> pyval) list \<Rightarrow> string" where
  "py_repr PNone = ''None''"
| "py_repr (PBool b) = (if b then ''True'' else ''False'')"
| "py_repr (PInt i) = int_str i"
| "py_repr (PFloat r) = r"
| "py_repr (PStr s) = str_repr s"
| "py_repr (PList xs) = ''['' @ repr_items xs @ '']''"
| "py_repr (PDict kvs) = ''{'' @ repr_entries kvs @ ''}''"
| "repr_items [] = []"
| "repr_items [x] = py_repr x"
| "repr_items (x # y # ys) = py_repr x @ '', '' @ repr_items (y # ys)"
| "repr_entries [] = []"
| "repr_entries [(k, v)] = str_repr k @ '': '' @ py_repr v"
| "repr_entries ((k, v) # e # es) =
     str_repr k @ '': '' @ py_repr v @ '', '' @ repr_entries (e # es)"

text \<open>\<^verbatim>\<open>str(v)\<close>, which is also what an f-string puts for \<^verbatim>\<open>{v}\<close>.\<close>

definition py_str :: "pyval \<Rightarrow> string" where
  "py_str v = (case v of PStr s \<Rightarrow> s | _ \<Rightarrow> py_repr v)"

section \<open>Exceptions\<close>

text \<open>
  An exception is its class and the text \<^verbatim>\<open>str(e)\<close>. The module has one error class of
  its own, \<^verbatim>\<open>ExportError\<close>, raised with a message and, by \<^verbatim>\<open>raise ... from e\<close>, a
  chained cause. A call of the engine ends with a path, with an \<^verbatim>\<open>ExportError\<close>, or
  with an exception of another class that nothing caught.
\<close>

datatype exn_class =
    FileExistsError | IsADirectoryError | OtherOSError
  | ValueError | AttributeError | LibraryError
  | OperationalError | ProgrammingError

datatype pyexn = PyExn exn_class string

fun exn_str :: "pyexn \<Rightarrow> string" where
  "exn_str (PyExn c msg) = msg"

datatype failure = ExportError string "pyexn option" | Uncaught pyexn

type_synonym 'a outcome = "failure + 'a"

section \<open>Paths (\<^verbatim>\<open>posixpath\<close>)\<close>

definition isabs :: "string \<Rightarrow> bool" where
  "isabs s = startswith s ''/''"

text \<open>\<^verbatim>\<open>os.path.join(a, b)\<close>\<close>

definition join :: "string \<Rightarrow> string \<Rightarrow> string" where
  "join a b = (if startswith b ''/'' then b
     else if a = [] \<or> endswith a ''/'' then a @ b
     else a @ ''/'' @ b)"

text \<open>\<^verbatim>\<open>path.split('/')\<close>\<close>

fun split_sep :: "string \<Rightarrow> string list" where
  "split_sep [] = [[]]"
| "split_sep (c # cs) = (if c = CHR ''/'' then [] # split_sep cs
     else (case split_sep cs of [] \<Rightarrow> [[c]] | x # xs \<Rightarrow> (c # x) # xs))"

definition initial_slashes :: "string \<Rightarrow> nat" where
  "initial_slashes path = (if startswith path ''/''
     then (if startswith path ''//'' \<and> \<not> startswith path ''///'' then 2 else 1)
     else 0)"

text \<open>The loop of \<^verbatim>\<open>normpath\<close> over the components, \<open>new_comps\<close> being its accumulator.\<close>

fun norm_comps :: "nat \<Rightarrow> string list \<Rightarrow> string list \<Rightarrow> string list" where
  "norm_comps ini [] new_comps = new_comps"
| "norm_comps ini (cmp # comps) new_comps =
     (if cmp = [] \<or> cmp = ''.'' then norm_comps ini comps new_comps
      else if cmp \<noteq> ''..'' \<or> (ini = 0 \<and> new_comps = [])
              \<or> (new_comps \<noteq> [] \<and> last new_comps = ''..'')
        then norm_comps ini comps (new_comps @ [cmp])
      else if new_comps \<noteq> [] then norm_comps ini comps (butlast new_comps)
      else norm_comps ini comps new_comps)"

definition normpath :: "string \<Rightarrow> string" where
  "normpath path = (if path = [] then ''.''
     else (let ini = initial_slashes path;
               p = str_join ''/'' (norm_comps ini (split_sep path) []);
               p' = (if 0 < ini then replicate ini (CHR ''/'') @ p else p)
           in if p' = [] then ''.'' else p'))"

text \<open>\<^verbatim>\<open>os.path.abspath(path)\<close>, given the working directory of the process.\<close>

definition abspath :: "string \<Rightarrow> string \<Rightarrow> string" where
  "abspath cwd path = normpath (if isabs path then path else join cwd path)"

text \<open>
  \<^verbatim>\<open>os.path.splitext(p)\<close>: the extension starts at the last dot, when that dot comes
  after the last separator and some character between the two is not a dot.
\<close>

definition splitext :: "string \<Rightarrow> string \<times> string" where
  "splitext p = (let sepIndex = rfind (CHR ''/'') p; dotIndex = rfind (CHR ''.'') p in
     if sepIndex < dotIndex
        \<and> list_ex (\<lambda>c. c \<noteq> CHR ''.'')
             (take (nat (dotIndex - (sepIndex + 1))) (drop (nat (sepIndex + 1)) p))
     then (take (nat dotIndex) p, drop (nat dotIndex) p)
     else (p, []))"

section \<open>The world outside: files, directories, the log\<close>

text \<open>
  A file holds text, or the rows that were handed to \<^verbatim>\<open>csv.writer\<close> (the quoting of the
  dialect is the library's business). Paths are names: the world does not relate a
  directory to what is under it. \<open>os_fault\<close> is what the operating system answers
  when the process asks to create or to open for writing a path it may not touch
  (permissions, a missing parent, a read-only volume).
\<close>

datatype artifact = Text string | CsvRows "string list list"

datatype log_level = INFO | ERROR

record world =
  files :: "string \<rightharpoonup> artifact"
  dirs :: "string set"
  os_fault :: "string \<rightharpoonup> pyexn"
  cwd :: string
  log :: "(log_level \<times> string) list"

definition logger_info :: "string \<Rightarrow> world \<Rightarrow> world" where
  "logger_info msg w = w\<lparr>log := log w @ [(INFO, msg)]\<rparr>"

definition logger_error :: "string \<Rightarrow> world \<Rightarrow> world" where
  "logger_error msg w = w\<lparr>log := log w @ [(ERROR, msg)]\<rparr>"

text \<open>
  \<^verbatim>\<open>os.path.split(p)\<close>: the head is what stands before the last separator, without
  its trailing separators unless it is made of separators only; the tail is the rest.
\<close>

definition rstrip_sep :: "string \<Rightarrow> string" where
  "rstrip_sep s = rev (dropWhile (\<lambda>c. c = CHR ''/'') (rev s))"

definition path_split :: "string \<Rightarrow> string \<times> string" where
  "path_split p =
     (let i = nat (rfind (CHR ''/'') p + 1); head = take i p; tail = drop i p
      in (if head \<noteq> [] \<and> head \<noteq> replicate (length head) (CHR ''/'')
            then rstrip_sep head else head,
          tail))"

text \<open>
  \<^verbatim>\<open>os.path.isdir\<close> and \<^verbatim>\<open>os.path.exists\<close>: the root, the current directory and its
  parent are always there.
\<close>

definition isdir :: "world \<Rightarrow> string \<Rightarrow> bool" where
  "isdir w p = (p \<in> dirs w \<or> p \<in> set [''/'', ''.'', ''..''])"

definition path_exists :: "world \<Rightarrow> string \<Rightarrow> bool" where
  "path_exists w p = (isdir w p \<or> p \<in> dom (files w))"

text \<open>\<^verbatim>\<open>os.mkdir(name)\<close>\<close>

definition mkdir :: "string \<Rightarrow> world \<Rightarrow> pyexn + world" where
  "mkdir name w =
     (if path_exists w name
        then Inl (PyExn FileExistsError (''[Errno 17] File exists: '' @ str_repr name))
      else (case os_fault w name of
              Some e \<Rightarrow> Inl e
            | None \<Rightarrow> Inr (w\<lparr>dirs := insert name (dirs w)\<rparr>)))"

text \<open>
  \<^verbatim>\<open>os.makedirs(name, exist_ok=True)\<close>, as \<^verbatim>\<open>os.py\<close> has it. A failure comes with the
  world it left, since the parents made so far stay.
  \<^verbatim>\<open>
  head, tail = path.split(name)
  if not tail:
      head, tail = path.split(head)
  if head and tail and not path.exists(head):
      try:
          makedirs(head, exist_ok=exist_ok)
      except FileExistsError:
          pass
      if tail == curdir:
          return
  try:
      mkdir(name, mode)
  except OSError:
      if not exist_ok or not path.isdir(name):
          raise
  \<close>
\<close>

definition makedirs_parts :: "string \<Rightarrow> string \<times> string" where
  "makedirs_parts name =
     (if snd (path_split name) = [] then path_split (fst (path_split name))
      else path_split name)"

definition mkdir_exist_ok :: "string \<Rightarrow> world \<Rightarrow> pyexn \<times> world + world" where
  "mkdir_exist_ok name w =
     (case mkdir name w of
        Inl e \<Rightarrow> if \<not> isdir w name then Inl (e, w) else Inr w
      | Inr w1 \<Rightarrow> Inr w1)"

function makedirs :: "string \<Rightarrow> world \<Rightarrow> pyexn \<times> world + world" where
  "makedirs name w =
     (if fst (makedirs_parts name) \<noteq> [] \<and> snd (makedirs_parts name) \<noteq> []
         \<and> \<not> path_exists w (fst (makedirs_parts name))
      then
        (case makedirs (fst (makedirs_parts name)) w of
           Inl (PyExn FileExistsError msg, w1) \<Rightarrow>
             if snd (makedirs_parts name) = ''.'' then Inr w1 else mkdir_exist_ok name w1
         | Inl (e, w1) \<Rightarrow> Inl (e, w1)
         | Inr w1 \<Rightarrow>
             if snd (makedirs_parts name) = ''.'' then Inr w1 else mkdir_exist_ok name w1)
      else mkdir_exist_ok name w)"
  by pat_completeness auto
termination
proof (relation "measure (\<lambda>(name, w). length name)")
  show "wf (measure (\<lambda>(name, w). length name))" by simp
next
  fix name :: string and w :: world
  assume a: "fst (makedirs_parts name) \<noteq> [] \<and> snd (makedirs_parts name) \<noteq> []
      \<and> \<not> path_exists w (fst (makedirs_parts name))"
  have split_le: "length (fst (path_split p)) + length (snd (path_split p)) \<le> length p" for p
  proof -
    define h where "h = take (nat (rfind (CHR ''/'') p + 1)) p"
    define t where "t = drop (nat (rfind (CHR ''/'') p + 1)) p"
    have "length (rstrip_sep h) \<le> length h"
      using length_dropWhile_le[of "\<lambda>c. c = CHR ''/''" "rev h"] by (simp add: rstrip_sep_def)
    moreover have "fst (path_split p) = rstrip_sep h \<or> fst (path_split p) = h"
      by (simp add: path_split_def Let_def h_def)
    ultimately have "length (fst (path_split p)) \<le> length h" by auto
    moreover have "snd (path_split p) = t"
      by (simp add: path_split_def Let_def t_def)
    moreover have "length h + length t = length p"
      unfolding h_def t_def by simp
    ultimately show ?thesis by simp
  qed
  have "length (fst (makedirs_parts name)) + length (snd (makedirs_parts name)) \<le> length name"
    using split_le[of name] split_le[of "fst (path_split name)"]
    by (auto simp: makedirs_parts_def)
  with a have "length (fst (makedirs_parts name)) < length name"
    by (cases "snd (makedirs_parts name)") auto
  then show "((fst (makedirs_parts name), w), (name, w)) \<in> measure (\<lambda>(name, w). length name)"
    by simp
qed

declare makedirs.simps [simp del]

text \<open>\<^verbatim>\<open>open(filename, 'w')\<close>: the file exists and is empty as soon as it is open.\<close>

definition open_w :: "string \<Rightarrow> world \<Rightarrow> pyexn + world" where
  "open_w filename w =
     (if filename \<in> dirs w
        then Inl (PyExn IsADirectoryError (''[Errno 21] Is a directory: '' @ str_repr filename))
      else (case os_fault w filename of
              Some e \<Rightarrow> Inl e
            | None \<Rightarrow> Inr (w\<lparr>files := (files w)(filename \<mapsto> Text [])\<rparr>)))"

definition write_file :: "string \<Rightarrow> artifact \<Rightarrow> world \<Rightarrow> world" where
  "write_file filename a w = w\<lparr>files := (files w)(filename \<mapsto> a)\<rparr>"

section \<open>The codecs\<close>

text \<open>
  Every codec ends with the same handler:
  \<^verbatim>\<open>except Exception as e: error_msg = f"Failed to export data to X: {str(e)}";
  logger.error(error_msg); raise ExportError(error_msg) from e\<close>.
\<close>

definition wrap_failure :: "string \<Rightarrow> pyexn \<Rightarrow> world \<Rightarrow> string outcome \<times> world" where
  "wrap_failure target e w =
     (let error_msg = ''Failed to export data to '' @ target @ '': '' @ exn_str e
      in (Inl (ExportError error_msg (Some e)), logger_error error_msg w))"

text \<open>\<^verbatim>\<open>if not filename.lower().endswith(ext): filename += ext\<close>\<close>

definition ensure_ext :: "string \<Rightarrow> string \<Rightarrow> string" where
  "ensure_ext ext filename =
     (if \<not> endswith (lower filename) ext then filename @ ext else filename)"

subsection \<open>CSV\<close>

text \<open>
  \<^verbatim>\<open>csv.DictWriter(csvfile, fieldnames=headers)\<close> keeps the defaults
  \<^verbatim>\<open>restval=""\<close> and \<^verbatim>\<open>extrasaction="raise"\<close>. Its \<^verbatim>\<open>_dict_to_list\<close>:
  \<^verbatim>\<open>
  wrong_fields = rowdict.keys() - self.fieldnames
  if wrong_fields:
      raise ValueError("dict contains fields not in fieldnames: "
                       + ", ".join([repr(x) for x in wrong_fields]))
  return (rowdict.get(key, self.restval) for key in self.fieldnames)
  \<close>
  (the wrong fields are listed here in the order of the record; Python lists a set).
\<close>

definition dict_to_list :: "string list \<Rightarrow> pydict \<Rightarrow> pyexn + pyval list" where
  "dict_to_list fieldnames rowdict =
     (let wrong_fields = filter (\<lambda>k. k \<notin> set fieldnames) (keys rowdict) in
      if wrong_fields \<noteq> []
        then Inl (PyExn ValueError (''dict contains fields not in fieldnames: ''
                    @ str_join '', '' (map str_repr wrong_fields)))
      else Inr (map (\<lambda>key. get rowdict key (PStr [])) fieldnames))"

text \<open>The text \<^verbatim>\<open>csv.writer\<close> gives a field: nothing for \<^verbatim>\<open>None\<close>, \<^verbatim>\<open>str\<close> otherwise.\<close>

definition csv_field :: "pyval \<Rightarrow> string" where
  "csv_field v = (case v of PNone \<Rightarrow> [] | _ \<Rightarrow> py_str v)"

text \<open>
  \<^verbatim>\<open>writer.writerows(data)\<close>: the rows are converted one at a time, so the rows before
  a record with a wrong field are in the file when the exception is raised.
\<close>

fun writerows :: "string list \<Rightarrow> pydict list \<Rightarrow> string list list
    \<Rightarrow> string list list \<times> pyexn option" where
  "writerows fieldnames [] written = (written, None)"
| "writerows fieldnames (rowdict # rowdicts) written =
     (case dict_to_list fieldnames rowdict of
        Inl e \<Rightarrow> (written, Some e)
      | Inr cells \<Rightarrow> writerows fieldnames rowdicts (written @ [map csv_field cells]))"

definition export_to_csv ::
    "pydict list \<Rightarrow> string \<Rightarrow> string list option \<Rightarrow> world \<Rightarrow> string outcome \<times> world" where
  "export_to_csv data filename headers w =
     (let filename = ensure_ext ''.csv'' filename;
          headers = (if headers = None \<and> data \<noteq> [] then Some (keys (hd data)) else headers)
      in case open_w filename w of
           Inl e \<Rightarrow> wrap_failure ''CSV'' e w
         | Inr w1 \<Rightarrow>
             (case headers of
                Some (h # hs) \<Rightarrow>
                  (case writerows (h # hs) data [h # hs] of
                     (rows, Some e) \<Rightarrow>
                       wrap_failure ''CSV'' e (write_file filename (CsvRows rows) w1)
                   | (rows, None) \<Rightarrow>
                       (Inr (abspath (cwd w) filename),
                        logger_info (''Exported '' @ int_str (int (length data))
                                     @ '' records to CSV file: '' @ filename)
                          (write_file filename (CsvRows rows) w1)))
              | _ \<Rightarrow>
                  (Inr (abspath (cwd w) filename),
                   logger_info (''Exported '' @ int_str (int (length data))
                                @ '' records to CSV file: '' @ filename)
                     (write_file filename (CsvRows []) w1))))"

subsection \<open>The serializers of the libraries\<close>

text \<open>
  \<^verbatim>\<open>json\<close>, \<^verbatim>\<open>yaml\<close>, \<^verbatim>\<open>pickle\<close>, \<^verbatim>\<open>xml.dom.minidom\<close>, \<^verbatim>\<open>pandas\<close> with
  \<^verbatim>\<open>xlsxwriter\<close>, and \<^verbatim>\<open>sqlite3\<close> are not part of the module: the engine takes them
  as they come. A dump into an open file gives the text it wrote and the exception it
  raised, if any. The spreadsheet and database writers open their file themselves:
  they give what the file holds afterwards (nothing when they did not touch it) and
  the exception they raised, if any.
\<close>

datatype xml = Element string "string option" "xml list"

record libs =
  json_dump :: "pyval \<Rightarrow> nat option \<Rightarrow> string \<times> pyexn option"
  yaml_dump :: "pyval \<Rightarrow> string \<times> pyexn option"
  pickle_dump :: "pyval \<Rightarrow> string \<times> pyexn option"
  xml_pretty :: "xml \<Rightarrow> pyexn + string"
  excel_write :: "world \<Rightarrow> pydict list \<Rightarrow> string \<Rightarrow> string \<Rightarrow> artifact option \<times> pyexn option"
  to_sql :: "pydict list \<Rightarrow> string \<Rightarrow> artifact option \<times> pyexn option"

definition put_file :: "string \<Rightarrow> artifact option \<Rightarrow> world \<Rightarrow> world" where
  "put_file filename a w = (case a of None \<Rightarrow> w | Some c \<Rightarrow> write_file filename c w)"

text \<open>The common end of the codecs that dump into a file they opened.\<close>

definition dump_into ::
    "string \<Rightarrow> string \<Rightarrow> string \<Rightarrow> string \<times> pyexn option \<Rightarrow> world \<Rightarrow> string outcome \<times> world" where
  "dump_into target done_msg filename dumped w =
     (case open_w filename w of
        Inl e \<Rightarrow> wrap_failure target e w
      | Inr w1 \<Rightarrow>
          (case dumped of
             (text, Some e) \<Rightarrow> wrap_failure target e (write_file filename (Text text) w1)
           | (text, None) \<Rightarrow>
               (Inr (abspath (cwd w) filename),
                logger_info (done_msg @ filename) (write_file filename (Text text) w1))))"

subsection \<open>JSON, YAML, pickle\<close>

definition export_to_json ::
    "libs \<Rightarrow> pyval \<Rightarrow> string \<Rightarrow> bool \<Rightarrow> world \<Rightarrow> string outcome \<times> world" where
  "export_to_json L data filename pretty w =
     (let filename = ensure_ext ''.json'' filename
      in dump_into ''JSON'' ''Exported data to JSON file: '' filename
           (if pretty then json_dump L data (Some 2) else json_dump L data None) w)"

definition export_to_yaml ::
    "libs \<Rightarrow> pyval \<Rightarrow> string \<Rightarrow> world \<Rightarrow> string outcome \<times> world" where
  "export_to_yaml L data filename w =
     (let filename = (if \<not> (endswith (lower filename) ''.yaml'' \<or> endswith (lower filename) ''.yml'')
                      then filename @ ''.yaml'' else filename)
      in dump_into ''YAML'' ''Exported data to YAML file: '' filename (yaml_dump L data) w)"

definition export_to_pickle ::
    "libs \<Rightarrow> pyval \<Rightarrow> string \<Rightarrow> world \<Rightarrow> string outcome \<times> world" where
  "export_to_pickle L data filename w =
     (let filename = (if \<not> (endswith (lower filename) ''.pkl'' \<or> endswith (lower filename) ''.pickle'')
                      then filename @ ''.pkl'' else filename)
      in dump_into ''pickle'' ''Exported data to pickle file: '' filename (pickle_dump L data) w)"

subsection \<open>Excel, SQLite\<close>

definition export_to_excel ::
    "libs \<Rightarrow> pydict list \<Rightarrow> string \<Rightarrow> string \<Rightarrow> world \<Rightarrow> string outcome \<times> world" where
  "export_to_excel L data filename sheet_name w =
     (let filename = ensure_ext ''.xlsx'' filename
      in case excel_write L w data filename sheet_name of
           (a, Some e) \<Rightarrow> wrap_failure ''Excel'' e (put_file filename a w)
         | (a, None) \<Rightarrow>
             (Inr (abspath (cwd w) filename),
              logger_info (''Exported '' @ int_str (int (length data))
                           @ '' records to Excel file: '' @ filename)
                (put_file filename a w)))"

text \<open>\<^verbatim>\<open>type(v).__name__\<close>\<close>

fun type_name :: "pyval \<Rightarrow> string" where
  "type_name PNone = ''NoneType''"
| "type_name (PBool b) = ''bool''"
| "type_name (PInt i) = ''int''"
| "type_name (PFloat r) = ''float''"
| "type_name (PStr s) = ''str''"
| "type_name (PList xs) = ''list''"
| "type_name (PDict d) = ''dict''"

text \<open>
  The SQLite codec opens the database itself: \<^verbatim>\<open>sqlite3.connect(filename)\<close> makes the
  file, empty, when it is not there, and fails where it cannot be opened. Then
  \<^verbatim>\<open>df.to_sql(table_name, conn, index=False, if_exists='replace')\<close> inserts the rows,
  one parameter for each column (the keys of the records, in the order they first
  appear). \<^verbatim>\<open>sqlite3\<close> binds \<^verbatim>\<open>None\<close>, numbers and strings; a list or a dictionary
  raises \<^verbatim>\<open>ProgrammingError\<close>. What the library does otherwise, and what the file
  holds afterwards, is the library's.
\<close>

definition sqlite_connect :: "string \<Rightarrow> world \<Rightarrow> pyexn + world" where
  "sqlite_connect filename w =
     (if filename \<in> dirs w \<or> os_fault w filename \<noteq> None
        then Inl (PyExn OperationalError ''unable to open database file'')
      else (case files w filename of
              None \<Rightarrow> Inr (w\<lparr>files := (files w)(filename \<mapsto> Text [])\<rparr>)
            | Some a \<Rightarrow> Inr w))"

fun sqlite_binds :: "pyval \<Rightarrow> bool" where
  "sqlite_binds (PList xs) = False"
| "sqlite_binds (PDict d) = False"
| "sqlite_binds v = True"

definition columns :: "pydict list \<Rightarrow> string list" where
  "columns data = remdups (rev (remdups (rev (concat (map keys data)))))"

text \<open>The first parameter that cannot be bound, with its position from 1, if any.\<close>

fun first_unbound :: "nat \<Rightarrow> pyval list \<Rightarrow> (nat \<times> pyval) option" where
  "first_unbound i [] = None"
| "first_unbound i (v # vs) = (if sqlite_binds v then first_unbound (i + 1) vs else Some (i, v))"

fun bind_rows :: "string list \<Rightarrow> pydict list \<Rightarrow> pyexn option" where
  "bind_rows cols [] = None"
| "bind_rows cols (r # rs) =
     (case first_unbound 1 (map (\<lambda>c. get r c PNone) cols) of
        Some (i, v) \<Rightarrow>
          Some (PyExn ProgrammingError
            (''Error binding parameter '' @ int_str (int i) @ '': type '' @ [CHR 0x27]
             @ type_name v @ [CHR 0x27] @ '' is not supported''))
      | None \<Rightarrow> bind_rows cols rs)"

definition df_to_sql :: "libs \<Rightarrow> pydict list \<Rightarrow> string \<Rightarrow> artifact option \<times> pyexn option" where
  "df_to_sql L data table_name =
     (case bind_rows (columns data) data of
        Some e \<Rightarrow> (fst (to_sql L data table_name), Some e)
      | None \<Rightarrow> to_sql L data table_name)"

definition export_to_sqlite ::
    "libs \<Rightarrow> pydict list \<Rightarrow> string \<Rightarrow> string \<Rightarrow> world \<Rightarrow> string outcome \<times> world" where
  "export_to_sqlite L data filename table_name w =
     (let filename = ensure_ext ''.db'' filename
      in case sqlite_connect filename w of
           Inl e \<Rightarrow> wrap_failure ''SQLite'' e w
         | Inr w1 \<Rightarrow>
             (case df_to_sql L data table_name of
                (a, Some e) \<Rightarrow> wrap_failure ''SQLite'' e (put_file filename a w1)
              | (a, None) \<Rightarrow>
                  (Inr (abspath (cwd w) filename),
                   logger_info (''Exported '' @ int_str (int (length data))
                                @ '' records to SQLite database: '' @ filename)
                     (put_file filename a w1))))"

subsection \<open>The tree formats: XML, Markdown, HTML\<close>

text \<open>
  The three codecs start their descent with \<^verbatim>\<open>data.items()\<close>, which a value that is
  not a dictionary does not have.
\<close>

definition items_of :: "pyval \<Rightarrow> pyexn + pydict" where
  "items_of data = (case data of
       PDict d \<Rightarrow> Inr d
     | _ \<Rightarrow> Inl (PyExn AttributeError
              ([CHR 0x27] @ type_name data @ [CHR 0x27] @ '' object has no attribute ''
               @ str_repr ''items'')))"

definition isalnum :: "char \<Rightarrow> bool" where
  "isalnum c = (let n = (of_char c :: nat) in
     (48 \<le> n \<and> n \<le> 57) \<or> (65 \<le> n \<and> n \<le> 90) \<or> (97 \<le> n \<and> n \<le> 122))"

definition element_name :: "string \<Rightarrow> string" where
  "element_name key = (let name = filter (\<lambda>c. isalnum c \<or> c = CHR ''_'') key in
     if name = [] then ''item'' else name)"

fun dict_to_xml :: "pydict \<Rightarrow> xml list"
  and xml_items :: "pyval list \<Rightarrow> xml list" where
  "dict_to_xml [] = []"
| "dict_to_xml ((key, value) # rest) =
     (case value of
        PDict d \<Rightarrow> Element (element_name key) None (dict_to_xml d)
      | PList xs \<Rightarrow> Element (element_name key) None (xml_items xs)
      | _ \<Rightarrow> Element (element_name key) (Some (py_str value)) [])
     # dict_to_xml rest"
| "xml_items [] = []"
| "xml_items (item # xs) =
     (case item of
        PDict d \<Rightarrow> Element ''item'' None (dict_to_xml d)
      | _ \<Rightarrow> Element ''item'' (Some (py_str item)) [])
     # xml_items xs"

text \<open>The three codecs build their text first and open the file last.\<close>

definition write_text ::
    "string \<Rightarrow> string \<Rightarrow> string \<Rightarrow> string \<Rightarrow> world \<Rightarrow> string outcome \<times> world" where
  "write_text target done_msg filename text w =
     (case open_w filename w of
        Inl e \<Rightarrow> wrap_failure target e w
      | Inr w1 \<Rightarrow>
          (Inr (abspath (cwd w) filename),
           logger_info (done_msg @ filename) (write_file filename (Text text) w1)))"

definition export_to_xml ::
    "libs \<Rightarrow> pyval \<Rightarrow> string \<Rightarrow> string \<Rightarrow> world \<Rightarrow> string outcome \<times> world" where
  "export_to_xml L data filename root_element w =
     (let filename = ensure_ext ''.xml'' filename
      in case items_of data of
           Inl e \<Rightarrow> wrap_failure ''XML'' e w
         | Inr d \<Rightarrow>
             (case xml_pretty L (Element root_element None (dict_to_xml d)) of
                Inl e \<Rightarrow> wrap_failure ''XML'' e w
              | Inr xml_string \<Rightarrow>
                  write_text ''XML'' ''Exported data to XML file: '' filename xml_string w))"

fun dict_to_markdown :: "pydict \<Rightarrow> nat \<Rightarrow> string"
  and markdown_items :: "pyval list \<Rightarrow> nat \<Rightarrow> string" where
  "dict_to_markdown [] level = []"
| "dict_to_markdown ((key, value) # rest) level =
     (replicate (level + 1) (CHR ''#'') @ '' '' @ key @ ''\<newline>\<newline>'')
     @ (case value of
          PDict d \<Rightarrow> dict_to_markdown d (level + 1)
        | PList xs \<Rightarrow> markdown_items xs level @ ''\<newline>''
        | _ \<Rightarrow> py_str value @ ''\<newline>\<newline>'')
     @ dict_to_markdown rest level"
| "markdown_items [] level = []"
| "markdown_items (item # xs) level =
     (case item of
        PDict d \<Rightarrow> dict_to_markdown d (level + 1)
      | _ \<Rightarrow> ''- '' @ py_str item @ ''\<newline>'')
     @ markdown_items xs level"

definition export_to_markdown ::
    "pyval \<Rightarrow> string \<Rightarrow> string \<Rightarrow> world \<Rightarrow> string outcome \<times> world" where
  "export_to_markdown data filename title w =
     (let filename = ensure_ext ''.md'' filename
      in case items_of data of
           Inl e \<Rightarrow> wrap_failure ''Markdown'' e w
         | Inr d \<Rightarrow>
             write_text ''Markdown'' ''Exported data to Markdown file: '' filename
               (''# '' @ title @ ''\<newline>\<newline>'' @ dict_to_markdown d 1) w)"

text \<open>The table of a list of dictionaries: the loops over the headers and the items.\<close>

fun html_th :: "string list \<Rightarrow> string" where
  "html_th [] = []"
| "html_th (header # headers) = ''<th>'' @ header @ ''</th>\<newline>'' @ html_th headers"

fun html_td :: "string list \<Rightarrow> pydict \<Rightarrow> string" where
  "html_td [] item = []"
| "html_td (header # headers) item =
     ''<td>'' @ py_str (get item header (PStr [])) @ ''</td>\<newline>'' @ html_td headers item"

fun html_tr :: "string list \<Rightarrow> pyval list \<Rightarrow> string" where
  "html_tr headers [] = []"
| "html_tr headers (item # xs) =
     ''<tr>\<newline>'' @ html_td headers (the_dict item) @ ''</tr>\<newline>'' @ html_tr headers xs"

fun html_li :: "pyval list \<Rightarrow> string" where
  "html_li [] = []"
| "html_li (item # xs) = ''<li>'' @ py_str item @ ''</li>\<newline>'' @ html_li xs"

definition html_sequence :: "pyval list \<Rightarrow> string" where
  "html_sequence xs =
     (if list_all is_dict xs then
        (if xs \<noteq> [] then
           (let headers = keys (the_dict (hd xs)) in
            ''<table>\<newline><tr>\<newline>'' @ html_th headers @ ''</tr>\<newline>''
            @ html_tr headers xs @ ''</table>\<newline>'')
         else [])
      else ''<ul>\<newline>'' @ html_li xs @ ''</ul>\<newline>'')"

fun dict_to_html :: "pydict \<Rightarrow> nat \<Rightarrow> string" where
  "dict_to_html [] level = []"
| "dict_to_html ((key, value) # rest) level =
     (''<h'' @ int_str (int (level + 1)) @ ''>'' @ key
        @ ''</h'' @ int_str (int (level + 1)) @ ''>\<newline>'')
     @ (case value of
          PDict d \<Rightarrow> dict_to_html d (level + 1)
        | PList xs \<Rightarrow> html_sequence xs
        | _ \<Rightarrow> ''<p>'' @ py_str value @ ''</p>\<newline>'')
     @ dict_to_html rest level"

definition html_head :: "string \<Rightarrow> string" where
  "html_head title =
     ''<!DOCTYPE html>\<newline><html>\<newline><head>\<newline>    <title>'' @ title @ ''</title>\<newline>    <style>\<newline>''
   @ ''        body { font-family: Arial, sans-serif; line-height: 1.6; margin: 0; padding: 20px; color: #333; }\<newline>''
   @ ''        h1 { color: #2c3e50; border-bottom: 1px solid #eee; padding-bottom: 10px; }\<newline>''
   @ ''        h2, h3, h4 { color: #2c3e50; margin-top: 20px; }\<newline>''
   @ ''        table { border-collapse: collapse; width: 100%; margin-bottom: 20px; }\<newline>''
   @ ''        th, td { text-align: left; padding: 12px; }\<newline>''
   @ ''        th { background-color: #f2f2f2; }\<newline>''
   @ ''        tr:nth-child(even) { background-color: #f9f9f9; }\<newline>''
   @ ''        .container { max-width: 1200px; margin: 0 auto; }\<newline>''
   @ ''    </style>\<newline></head>\<newline><body>\<newline>    <div class='' @ [CHR 0x22] @ ''container'' @ [CHR 0x22] @ ''>\<newline>''
   @ ''        <h1>'' @ title @ ''</h1>\<newline>''"

definition export_to_html ::
    "pyval \<Rightarrow> string \<Rightarrow> string \<Rightarrow> world \<Rightarrow> string outcome \<times> world" where
  "export_to_html data filename title w =
     (let filename = ensure_ext ''.html'' filename
      in case items_of data of
           Inl e \<Rightarrow> wrap_failure ''HTML'' e w
         | Inr d \<Rightarrow>
             write_text ''HTML'' ''Exported data to HTML file: '' filename
               (html_head title @ dict_to_html d 1
                @ ''    </div>\<newline></body>\<newline></html>\<newline>'') w)"

section \<open>The dispatcher\<close>

text \<open>What \<^verbatim>\<open>export_data\<close> reads of the configuration (\<^verbatim>\<open>ExportConfig\<close>).\<close>

record export_config =
  output_dir :: string
  default_format :: string
  max_file_size_mb :: int

fun the_list :: "pyval \<Rightarrow> pyval list" where
  "the_list (PList xs) = xs"
| "the_list v = []"

text \<open>
  \<^verbatim>\<open>
  if format is None:
      _, ext = os.path.splitext(filename)
      if ext: format = ext.lower().lstrip('.')
      else:   format = config.export.default_format
  \<close>
\<close>

definition effective_format :: "export_config \<Rightarrow> string \<Rightarrow> string option \<Rightarrow> string" where
  "effective_format cfg filename format =
     (case format of
        None \<Rightarrow>
          (let ext = snd (splitext filename) in
           if ext \<noteq> [] then lstrip_dot (lower ext) else default_format cfg)
      | Some f \<Rightarrow> f)"

text \<open>
  \<^verbatim>\<open>
  if output_dir and not os.path.isabs(filename):
      os.makedirs(output_dir, exist_ok=True)
      filename = os.path.join(output_dir, filename)
  \<close>
  These lines stand before the \<^verbatim>\<open>try\<close> of the dispatcher.
\<close>

definition output_path ::
    "export_config \<Rightarrow> string \<Rightarrow> world \<Rightarrow> pyexn \<times> world + string \<times> world" where
  "output_path cfg filename w =
     (if output_dir cfg \<noteq> [] \<and> \<not> isabs filename then
        (case makedirs (output_dir cfg) w of
           Inl (e, w1) \<Rightarrow> Inl (e, w1)
         | Inr w1 \<Rightarrow> Inr (join (output_dir cfg) filename, w1))
      else Inr (filename, w))"

text \<open>The chain of \<^verbatim>\<open>if format in [...]\<close> inside the \<^verbatim>\<open>try\<close>.\<close>

definition dispatch :: "libs \<Rightarrow> string \<Rightarrow> pyval \<Rightarrow> string \<Rightarrow> world \<Rightarrow> string outcome \<times> world" where
  "dispatch L format data filename w =
     (if format \<in> set [''csv''] then
        (if \<not> is_list data \<or> \<not> list_all is_dict (the_list data)
           then (Inl (ExportError ''CSV export requires a list of dictionaries'' None), w)
         else export_to_csv (map the_dict (the_list data)) filename None w)
      else if format \<in> set [''json''] then export_to_json L data filename True w
      else if format \<in> set [''xml''] then
        (if \<not> is_dict data
           then (Inl (ExportError ''XML export requires a dictionary'' None), w)
         else export_to_xml L data filename ''data'' w)
      else if format \<in> set [''md'', ''markdown''] then
        (if \<not> is_dict data
           then (Inl (ExportError ''Markdown export requires a dictionary'' None), w)
         else export_to_markdown data filename ''Exported Data'' w)
      else if format \<in> set [''html''] then
        (if \<not> is_dict data
           then (Inl (ExportError ''HTML export requires a dictionary'' None), w)
         else export_to_html data filename ''Exported Data'' w)
      else if format \<in> set [''yaml'', ''yml''] then export_to_yaml L data filename w
      else if format \<in> set [''xlsx'', ''excel''] then
        (if \<not> is_list data \<or> \<not> list_all is_dict (the_list data)
           then (Inl (ExportError ''Excel export requires a list of dictionaries'' None), w)
         else export_to_excel L (map the_dict (the_list data)) filename ''Data'' w)
      else if format \<in> set [''db'', ''sqlite''] then
        (if \<not> is_list data \<or> \<not> list_all is_dict (the_list data)
           then (Inl (ExportError ''SQLite export requires a list of dictionaries'' None), w)
         else export_to_sqlite L (map the_dict (the_list data)) filename ''data'' w)
      else if format \<in> set [''pkl'', ''pickle''] then export_to_pickle L data filename w
      else (Inl (ExportError (''Unsupported export format: '' @ format) None), w))"

text \<open>
  \<^verbatim>\<open>except ExportError: raise\<close>, then
  \<^verbatim>\<open>except Exception as e: ... raise ExportError(error_msg) from e\<close>.
\<close>

definition except_handler :: "string \<Rightarrow> string outcome \<times> world \<Rightarrow> string outcome \<times> world" where
  "except_handler format r =
     (case r of
        (Inl (Uncaught e), w) \<Rightarrow> wrap_failure format e w
      | _ \<Rightarrow> r)"

definition export_data ::
    "libs \<Rightarrow> export_config \<Rightarrow> pyval \<Rightarrow> string \<Rightarrow> string option \<Rightarrow> world
      \<Rightarrow> string outcome \<times> world" where
  "export_data L cfg data filename format w =
     (let format = effective_format cfg filename format
      in case output_path cfg filename w of
           Inl (e, w1) \<Rightarrow> (Inl (Uncaught e), w1)
         | Inr (filename, w1) \<Rightarrow> except_handler format (dispatch L format data filename w1))"

section \<open>Statements of the specification, and sample inputs\<close>

text \<open>
  The rule of the specification for a row of a table: one cell for each header, in
  the order of the headers, empty where the record has no such key.
\<close>

definition positional_row :: "string list \<Rightarrow> pydict \<Rightarrow> string list" where
  "positional_row headers r =
     map (\<lambda>k. case map_of r k of None \<Rightarrow> [] | Some v \<Rightarrow> csv_field v) headers"

text \<open>A world with no file, no directory and no fault.\<close>

definition w0 :: world where
  "w0 = \<lparr>files = Map.empty, dirs = {}, os_fault = Map.empty, cwd = ''/home/user'', log = []\<rparr>"

text \<open>\<^verbatim>\<open>[{"a": 1, "b": 2}, {"a": 3, "c": 4}]\<close> and \<^verbatim>\<open>[{"a": 1, "b": 2}, {"a": 3}]\<close>\<close>

definition records_extra_key :: "pydict list" where
  "records_extra_key = [[(''a'', PInt 1), (''b'', PInt 2)], [(''a'', PInt 3), (''c'', PInt 4)]]"

definition records_missing_key :: "pydict list" where
  "records_missing_key = [[(''a'', PInt 1), (''b'', PInt 2)], [(''a'', PInt 3)]]"

text \<open>
  What one item of a sequence gives in Markdown: a dictionary is a nested section one
  level down, anything else is a bullet line.
\<close>

definition markdown_item :: "pyval \<Rightarrow> nat \<Rightarrow> string" where
  "markdown_item item level =
     (case item of
        PDict d \<Rightarrow> dict_to_markdown d (level + 1)
      | _ \<Rightarrow> ''- '' @ py_str item @ ''\<newline>'')"

text \<open>
  The HTML table of the specification: the header row is the key order of the first
  item, each body row has one cell for each header, empty where the item has no such
  key. And its unordered list: one list item for each element.
\<close>

definition html_table :: "pyval list \<Rightarrow> string" where
  "html_table xs =
     (let headers = keys (the_dict (hd xs)) in
      ''<table>\<newline><tr>\<newline>''
      @ concat (map (\<lambda>h. ''<th>'' @ h @ ''</th>\<newline>'') headers)
      @ ''</tr>\<newline>''
      @ concat (map (\<lambda>item. ''<tr>\<newline>''
            @ concat (map (\<lambda>h. ''<td>''
                  @ (case map_of (the_dict item) h of None \<Rightarrow> [] | Some v \<Rightarrow> py_str v)
                  @ ''</td>\<newline>'') headers)
            @ ''</tr>\<newline>'') xs)
      @ ''</table>\<newline>'')"

definition html_list :: "pyval list \<Rightarrow> string" where
  "html_list xs =
     ''<ul>\<newline>'' @ concat (map (\<lambda>item. ''<li>'' @ py_str item @ ''</li>\<newline>'') xs)
     @ ''</ul>\<newline>''"

text \<open>Sample dictionaries for the tree formats.\<close>

definition people :: pydict where
  "people = [(''people'', PList [PDict [(''name'', PStr ''Ann''), (''age'', PInt 30)], PDict [(''name'', PStr ''Bob'')]])]"

definition mixed_section :: pydict where
  "mixed_section = [(''items'', PList [PStr ''a'', PDict [(''k'', PInt 1)], PStr ''b''])]"

text \<open>
  The default configuration (\<^verbatim>\<open>DEFAULT_CONFIG["export"]\<close>), a stand-in for the libraries
  in the examples (every serializer writes the \<^verbatim>\<open>repr\<close> of its data, or nothing, and
  raises nothing), and a world where a regular file has the name of the output
  directory.
\<close>

definition default_config :: export_config where
  "default_config =
     \<lparr>output_dir = ''./output'', default_format = ''json'', max_file_size_mb = 100\<rparr>"

definition sample_libs :: libs where
  "sample_libs =
     \<lparr>json_dump = (\<lambda>v ind. (py_repr v, None)),
      yaml_dump = (\<lambda>v. (py_repr v, None)),
      pickle_dump = (\<lambda>v. (py_repr v, None)),
      xml_pretty = (\<lambda>x. Inr []),
      excel_write = (\<lambda>w d f s. (Some (Text []), None)),
      to_sql = (\<lambda>d s. (None, None))\<rparr>"

definition w_blocked :: world where
  "w_blocked = w0\<lparr>files := [''./output'' \<mapsto> Text []]\<rparr>"

text \<open>The tokens the chain of the dispatcher compares the format with.\<close>

definition supported_tokens :: "string list" where
  "supported_tokens =
     [''csv'', ''json'', ''xml'', ''md'', ''markdown'', ''html'', ''yaml'', ''yml'',
      ''xlsx'', ''excel'', ''db'', ''sqlite'', ''pkl'', ''pickle'']"

text \<open>
  The shape test of the dispatcher, by format: a list of dictionaries for the tabular
  formats (the test does not look inside the dictionaries), a dictionary for the tree
  formats.
\<close>

definition requires_records :: "string \<Rightarrow> bool" where
  "requires_records fmt = (fmt \<in> set [''csv'', ''xlsx'', ''excel'', ''db'', ''sqlite''])"

definition requires_mapping :: "string \<Rightarrow> bool" where
  "requires_mapping fmt = (fmt \<in> set [''xml'', ''md'', ''markdown'', ''html''])"

definition fails_shape_test :: "string \<Rightarrow> pyval \<Rightarrow> bool" where
  "fails_shape_test fmt data =
     (if requires_records fmt then \<not> (is_list data \<and> list_all is_dict (the_list data))
      else if requires_mapping fmt then \<not> is_dict data
      else False)"

text \<open>
  The shapes in the words of the specification: a record is a mapping whose every
  value is a scalar, a record set is a sequence of records.
\<close>

fun is_scalar :: "pyval \<Rightarrow> bool" where
  "is_scalar (PList xs) = False"
| "is_scalar (PDict d) = False"
| "is_scalar v = True"

definition is_record :: "pyval \<Rightarrow> bool" where
  "is_record v = (is_dict v \<and> list_all is_scalar (map snd (the_dict v)))"

definition is_record_set :: "pyval \<Rightarrow> bool" where
  "is_record_set v = (is_list v \<and> list_all is_record (the_list v))"

text \<open>\<^verbatim>\<open>[{"a": {"b": 1}}]\<close>: a list of dictionaries that is not a record set.\<close>

definition nested_records :: pyval where
  "nested_records = PList [PDict [(''a'', PDict [(''b'', PInt 1)])]]"

text \<open>The directories a call of \<^verbatim>\<open>os.makedirs(name)\<close> may make: \<open>name\<close> and what it starts with.\<close>

definition leading_parts :: "string \<Rightarrow> string set" where
  "leading_parts name = {take n name |n. True}"

section \<open>CSV: the header comes from the first record\<close>

lemma dict_to_list_Inr:
  assumes "set (keys r) \<subseteq> set fn"
  shows "\<exists>cells. dict_to_list fn r = Inr cells \<and> map csv_field cells = positional_row fn r"
  using assms
  by (auto simp: dict_to_list_def positional_row_def get_def csv_field_def py_str_def
      filter_empty_conv split: option.splits)

lemma dict_to_list_Inl:
  assumes "\<not> set (keys r) \<subseteq> set fn"
  shows "\<exists>msg. dict_to_list fn r = Inl (PyExn ValueError msg)"
  using assms by (auto simp: dict_to_list_def filter_empty_conv)

lemma writerows_all_fit:
  "\<forall>r \<in> set rs. set (keys r) \<subseteq> set fn \<Longrightarrow>
     writerows fn rs acc = (acc @ map (positional_row fn) rs, None)"
proof (induction rs arbitrary: acc)
  case Nil
  then show ?case by simp
next
  case (Cons r rs)
  from Cons.prems obtain cells
    where "dict_to_list fn r = Inr cells" "map csv_field cells = positional_row fn r"
    using dict_to_list_Inr by (metis list.set_intros(1))
  with Cons show ?case by simp
qed

lemma writerows_stops_at_extra_key:
  "\<exists>r \<in> set rs. \<not> set (keys r) \<subseteq> set fn \<Longrightarrow>
     \<exists>msg. writerows fn rs acc
        = (acc @ map (positional_row fn) (takeWhile (\<lambda>r. set (keys r) \<subseteq> set fn) rs),
           Some (PyExn ValueError msg))"
proof (induction rs arbitrary: acc)
  case Nil
  then show ?case by simp
next
  case (Cons r rs)
  show ?case
  proof (cases "set (keys r) \<subseteq> set fn")
    case True
    then obtain cells
      where c: "dict_to_list fn r = Inr cells" "map csv_field cells = positional_row fn r"
      using dict_to_list_Inr by blast
    from True Cons.prems have "\<exists>r \<in> set rs. \<not> set (keys r) \<subseteq> set fn" by auto
    from Cons.IH[OF this, of "acc @ [positional_row fn r]"] c True show ?thesis by simp
  next
    case False
    then obtain msg where "dict_to_list fn r = Inl (PyExn ValueError msg)"
      using dict_to_list_Inl by blast
    with False show ?thesis by simp
  qed
qed

text \<open>
  C1, as the specification states it, at its own example
  \<^verbatim>\<open>export_csv([{"a":1,"b":2},{"a":3,"c":4}], "t")\<close>: the key \<^verbatim>\<open>c\<close> is not dropped.
  The writer raises \<^verbatim>\<open>ValueError\<close>, the export fails with \<^verbatim>\<open>ExportError\<close>, and the file
  is left with the header and the first row.
\<close>

theorem export_to_csv_extra_key_fails:
  "fst (export_to_csv records_extra_key ''t'' None w0)
     = Inl (ExportError
         (''Failed to export data to CSV: dict contains fields not in fieldnames: '' @ str_repr ''c'')
         (Some (PyExn ValueError (''dict contains fields not in fieldnames: '' @ str_repr ''c''))))
   \<and> files (snd (export_to_csv records_extra_key ''t'' None w0)) ''t.csv''
     = Some (CsvRows [[''a'', ''b''], [''1'', ''2'']])"
  by code_simp

text \<open>
  C1, amended. A non-empty list of records whose first record has a key is exported
  without a header list, into a file that can be opened. If no record has a key
  outside the keys of the first record, the export succeeds and the file holds the
  keys of the first record, in their order, then one row for each record, cell by cell
  against that header, a missing key giving an empty cell. If some record has a key
  outside the header, the export fails with \<^verbatim>\<open>ExportError\<close> caused by the \<^verbatim>\<open>ValueError\<close> of
  the writer, and the file holds the header and the rows of the records before it.
\<close>

theorem export_to_csv_header_of_first_record:
  assumes "data \<noteq> []" and "keys (hd data) \<noteq> []"
    and "ensure_ext ''.csv'' filename \<notin> dirs w"
    and "os_fault w (ensure_ext ''.csv'' filename) = None"
  shows "((\<forall>r \<in> set data. set (keys r) \<subseteq> set (keys (hd data))) \<longrightarrow>
            fst (export_to_csv data filename None w)
              = Inr (abspath (cwd w) (ensure_ext ''.csv'' filename))
          \<and> files (snd (export_to_csv data filename None w)) (ensure_ext ''.csv'' filename)
              = Some (CsvRows (keys (hd data) # map (positional_row (keys (hd data))) data)))
       \<and> ((\<exists>r \<in> set data. \<not> set (keys r) \<subseteq> set (keys (hd data))) \<longrightarrow>
            (\<exists>msg cause. fst (export_to_csv data filename None w)
                = Inl (ExportError msg (Some (PyExn ValueError cause))))
          \<and> files (snd (export_to_csv data filename None w)) (ensure_ext ''.csv'' filename)
              = Some (CsvRows (keys (hd data)
                   # map (positional_row (keys (hd data)))
                       (takeWhile (\<lambda>r. set (keys r) \<subseteq> set (keys (hd data))) data))))"
proof -
  obtain h hs where h: "keys (hd data) = h # hs"
    using assms(2) by (cases "keys (hd data)") auto
  let ?f = "ensure_ext ''.csv'' filename"
  have o: "open_w ?f w = Inr (w\<lparr>files := (files w)(?f \<mapsto> Text [])\<rparr>)"
    using assms(3,4) by (simp add: open_w_def)
  show ?thesis
  proof (intro conjI impI)
    assume a: "\<forall>r \<in> set data. set (keys r) \<subseteq> set (keys (hd data))"
    from writerows_all_fit[OF a, of "[keys (hd data)]"]
    have wr: "writerows (h # hs) data [h # hs]
        = ((h # hs) # map (positional_row (h # hs)) data, None)"
      by (simp add: h)
    show "fst (export_to_csv data filename None w) = Inr (abspath (cwd w) ?f)"
      using assms(1) o wr h by (simp add: export_to_csv_def Let_def)
    show "files (snd (export_to_csv data filename None w)) ?f
              = Some (CsvRows (keys (hd data) # map (positional_row (keys (hd data))) data))"
      using assms(1) o wr h
      by (simp add: export_to_csv_def Let_def logger_info_def write_file_def)
  next
    assume a: "\<exists>r \<in> set data. \<not> set (keys r) \<subseteq> set (keys (hd data))"
    from writerows_stops_at_extra_key[OF a, of "[keys (hd data)]"]
    obtain cause where wr: "writerows (h # hs) data [h # hs]
        = ((h # hs) # map (positional_row (h # hs))
               (takeWhile (\<lambda>r. set (keys r) \<subseteq> set (h # hs)) data),
           Some (PyExn ValueError cause))"
      by (auto simp: h)
    show "\<exists>msg cause. fst (export_to_csv data filename None w)
                = Inl (ExportError msg (Some (PyExn ValueError cause)))"
      using assms(1) o wr h by (simp add: export_to_csv_def Let_def wrap_failure_def)
    show "files (snd (export_to_csv data filename None w)) ?f
              = Some (CsvRows (keys (hd data)
                   # map (positional_row (keys (hd data)))
                       (takeWhile (\<lambda>r. set (keys r) \<subseteq> set (keys (hd data))) data)))"
      using assms(1) o wr h
      by (simp add: export_to_csv_def Let_def wrap_failure_def logger_error_def write_file_def)
  qed
qed

theorem export_to_csv_header_of_first_record_witness:
  "fst (export_to_csv records_missing_key ''t'' None w0) = Inr ''/home/user/t.csv''
   \<and> files (snd (export_to_csv records_missing_key ''t'' None w0)) ''t.csv''
       = Some (CsvRows [[''a'', ''b''], [''1'', ''2''], [''3'', []]])
   \<and> (\<exists>msg cause. fst (export_to_csv records_extra_key ''t'' None w0)
         = Inl (ExportError msg (Some (PyExn ValueError cause))))"
proof -
  have f: "ensure_ext ''.csv'' ''t'' = ''t.csv''" by code_simp
  have p: "abspath (cwd w0) ''t.csv'' = ''/home/user/t.csv''" by code_simp
  have m: "records_missing_key \<noteq> []" "keys (hd records_missing_key) \<noteq> []"
      "ensure_ext ''.csv'' ''t'' \<notin> dirs w0" "os_fault w0 (ensure_ext ''.csv'' ''t'') = None"
    by (simp_all add: records_missing_key_def keys_def w0_def)
  have x: "records_extra_key \<noteq> []" "keys (hd records_extra_key) \<noteq> []"
    by (simp_all add: records_extra_key_def keys_def)
  have fit: "\<forall>r \<in> set records_missing_key. set (keys r) \<subseteq> set (keys (hd records_missing_key))"
    by (simp add: records_missing_key_def keys_def)
  have extra: "\<exists>r \<in> set records_extra_key. \<not> set (keys r) \<subseteq> set (keys (hd records_extra_key))"
    by (simp add: records_extra_key_def keys_def)
  have rows: "keys (hd records_missing_key) # map (positional_row (keys (hd records_missing_key))) records_missing_key
      = [[''a'', ''b''], [''1'', ''2''], [''3'', []]]"
    by code_simp
  from export_to_csv_header_of_first_record[OF m] fit
  have 1: "fst (export_to_csv records_missing_key ''t'' None w0) = Inr ''/home/user/t.csv''"
    and 2: "files (snd (export_to_csv records_missing_key ''t'' None w0)) ''t.csv''
       = Some (CsvRows [[''a'', ''b''], [''1'', ''2''], [''3'', []]])"
    unfolding f p rows by blast+
  from export_to_csv_header_of_first_record[OF x m(3,4)] extra
  have 3: "\<exists>msg cause. fst (export_to_csv records_extra_key ''t'' None w0)
         = Inl (ExportError msg (Some (PyExn ValueError cause)))"
    by blast
  from 1 2 3 show ?thesis by blast
qed

section \<open>Markdown: a sequence is rendered item by item\<close>

lemma markdown_items_concat:
  "markdown_items xs level = concat (map (\<lambda>item. markdown_item item level) xs)"
  by (induction xs) (auto simp: markdown_item_def split: pyval.splits)

text \<open>
  C9. The items of a sequence are rendered one by one and in their order: a dictionary
  as a nested section at the next level, any other item as a bullet line of its own,
  whatever the other items are; one empty line closes the sequence.
\<close>

theorem dict_to_markdown_sequence_per_item:
  "dict_to_markdown ((key, PList xs) # rest) level
     = replicate (level + 1) (CHR ''#'') @ '' '' @ key @ ''\<newline>\<newline>''
       @ concat (map (\<lambda>item. markdown_item item level) xs) @ ''\<newline>''
       @ dict_to_markdown rest level"
  by (simp add: markdown_items_concat)

theorem dict_to_markdown_sequence_per_item_witness:
  "dict_to_markdown mixed_section 1
     = ''## items\<newline>\<newline>- a\<newline>### k\<newline>\<newline>1\<newline>\<newline>- b\<newline>\<newline>''"
  unfolding mixed_section_def
  by (subst dict_to_markdown_sequence_per_item) code_simp

section \<open>HTML: a sequence is a table, a list, or nothing\<close>

lemma html_th_concat: "html_th hs = concat (map (\<lambda>h. ''<th>'' @ h @ ''</th>\<newline>'') hs)"
  by (induction hs) auto

lemma html_td_concat:
  "html_td hs item = concat (map (\<lambda>h. ''<td>''
        @ (case map_of item h of None \<Rightarrow> [] | Some v \<Rightarrow> py_str v) @ ''</td>\<newline>'') hs)"
  by (induction hs) (auto simp: get_def py_str_def split: option.splits)

lemma html_tr_concat:
  "html_tr hs xs = concat (map (\<lambda>item. ''<tr>\<newline>''
        @ concat (map (\<lambda>h. ''<td>''
              @ (case map_of (the_dict item) h of None \<Rightarrow> [] | Some v \<Rightarrow> py_str v)
              @ ''</td>\<newline>'') hs)
        @ ''</tr>\<newline>'') xs)"
  by (induction xs) (auto simp: html_td_concat)

lemma html_li_concat:
  "html_li xs = concat (map (\<lambda>item. ''<li>'' @ py_str item @ ''</li>\<newline>'') xs)"
  by (induction xs) auto

lemma html_sequence_cases:
  "html_sequence xs = (if xs = [] then [] else if list_all is_dict xs then html_table xs else html_list xs)"
  by (simp add: html_sequence_def html_table_def html_list_def html_th_concat html_tr_concat html_li_concat Let_def)

text \<open>
  C7, as the specification states it, at the empty sequence: no unordered list is
  rendered. \<^verbatim>\<open>all(...)\<close> holds of the empty list, so the branch of the table is taken,
  and its guard \<^verbatim>\<open>if value:\<close> leaves the heading alone.
\<close>

theorem dict_to_html_empty_sequence:
  "dict_to_html [(''tags'', PList [])] 1 = ''<h2>tags</h2>\<newline>''
   \<and> dict_to_html [(''tags'', PList [])] 1 \<noteq> ''<h2>tags</h2>\<newline>'' @ html_list []"
  by code_simp

text \<open>
  C7, amended. Under the heading of an entry whose value is a sequence: nothing for
  the empty sequence; for a non-empty sequence of dictionaries a table, whose header
  row is the key order of the first item and whose body rows take each item cell by
  cell against that header, empty where a key is missing; in every other case an
  unordered list with one list item for each element.
\<close>

theorem dict_to_html_sequence:
  "dict_to_html ((key, PList xs) # rest) level
     = ''<h'' @ int_str (int (level + 1)) @ ''>'' @ key
       @ ''</h'' @ int_str (int (level + 1)) @ ''>\<newline>''
       @ (if xs = [] then []
          else if list_all is_dict xs then html_table xs
          else html_list xs)
       @ dict_to_html rest level"
  by (simp add: html_sequence_cases)

theorem dict_to_html_sequence_witness:
  "dict_to_html people 1
     = ''<h2>people</h2>\<newline><table>\<newline><tr>\<newline><th>name</th>\<newline><th>age</th>\<newline></tr>\<newline>''
       @ ''<tr>\<newline><td>Ann</td>\<newline><td>30</td>\<newline></tr>\<newline>''
       @ ''<tr>\<newline><td>Bob</td>\<newline><td></td>\<newline></tr>\<newline></table>\<newline>''
   \<and> dict_to_html [(''tags'', PList [PStr ''x'', PDict []])] 1
     = ''<h2>tags</h2>\<newline><ul>\<newline><li>x</li>\<newline><li>{}</li>\<newline></ul>\<newline>''"
  unfolding people_def
  by (subst dict_to_html_sequence, subst dict_to_html_sequence) code_simp

section \<open>Facts about paths\<close>

lemma endswith_append_same: "endswith (a @ b) b"
  by (simp add: endswith_def)

lemma endswith_append_long:
  "length suf \<le> length b \<Longrightarrow> endswith (a @ b) suf = endswith b suf"
  by (simp add: endswith_def)

lemma endswith_prepend: "endswith s suf \<Longrightarrow> endswith (a @ s) suf"
  by (auto simp: endswith_def)

lemma endswith_sep_split: "endswith a ''/'' \<Longrightarrow> \<exists>a0. a = a0 @ ''/''"
  unfolding endswith_def by (metis append_take_drop_id)

lemma split_sep_not_Nil: "split_sep s \<noteq> []"
  by (induction s) (auto split: list.splits)

lemma split_sep_no_sep: "CHR ''/'' \<notin> set name \<Longrightarrow> split_sep name = [name]"
  by (induction name) auto

lemma split_sep_last_component:
  "CHR ''/'' \<notin> set name \<Longrightarrow> split_sep (q0 @ ''/'' @ name) = split_sep q0 @ [name]"
proof (induction q0)
  case Nil
  then show ?case by (simp add: split_sep_no_sep)
next
  case (Cons c q0)
  then show ?case
    using split_sep_not_Nil[of q0] by (cases "split_sep q0") auto
qed

lemma norm_comps_snoc:
  "name \<noteq> [] \<Longrightarrow> name \<noteq> ''.'' \<Longrightarrow> name \<noteq> ''..'' \<Longrightarrow>
     norm_comps ini (cs @ [name]) acc = norm_comps ini cs acc @ [name]"
  by (induction cs arbitrary: acc) auto

lemma str_join_snoc: "endswith (str_join sep (xs @ [name])) name"
proof (induction sep xs rule: str_join.induct)
  case (1 sep)
  then show ?case by (simp add: endswith_def)
next
  case (2 sep x)
  then show ?case using endswith_append_same[of "x @ sep" name] by simp
next
  case (3 sep x y ys)
  then show ?case using endswith_prepend[of _ name "x @ sep"] by simp
qed

lemma normpath_last_component:
  assumes "name \<noteq> []" "name \<noteq> ''.''" "name \<noteq> ''..''"
    and "split_sep p = cs @ [name]"
  shows "endswith (normpath p) name"
proof -
  let ?ini = "initial_slashes p"
  have p: "p \<noteq> []" using assms(1,4) by (cases p) auto
  have nc: "norm_comps ?ini (split_sep p) [] = norm_comps ?ini cs [] @ [name]"
    unfolding assms(4) using norm_comps_snoc[OF assms(1-3)] by simp
  have e: "endswith (str_join ''/'' (norm_comps ?ini (split_sep p) [])) name"
    unfolding nc by (rule str_join_snoc)
  then have ne: "str_join ''/'' (norm_comps ?ini (split_sep p) []) \<noteq> []"
    using assms(1) by (auto simp: endswith_def)
  show ?thesis
    using e ne p by (auto simp: normpath_def Let_def intro: endswith_prepend)
qed

lemma normpath_keeps_name:
  assumes "name \<noteq> []" "CHR ''/'' \<notin> set name" "name \<noteq> ''.''" "name \<noteq> ''..''"
    and "q = [] \<or> (\<exists>q0. q = q0 @ ''/'')"
  shows "endswith (normpath (q @ name)) name"
proof -
  have "\<exists>cs. split_sep (q @ name) = cs @ [name]"
    using assms(5) split_sep_no_sep[OF assms(2)] split_sep_last_component[OF assms(2)]
    by (metis append_Nil append_assoc)
  then show ?thesis using normpath_last_component[OF assms(1,3,4)] by blast
qed

lemma join_keeps_name:
  assumes "name \<noteq> []" "CHR ''/'' \<notin> set name"
    and "q = [] \<or> (\<exists>q0. q = q0 @ ''/'')"
  shows "\<exists>q'. join a (q @ name) = q' @ name \<and> (q' = [] \<or> (\<exists>q0. q' = q0 @ ''/''))"
proof (cases "startswith (q @ name) ''/''")
  case True
  then show ?thesis using assms(3) by (auto simp: join_def)
next
  case False
  show ?thesis
  proof (cases "a = [] \<or> endswith a ''/''")
    case True
    then have j: "join a (q @ name) = (a @ q) @ name" using False by (simp add: join_def)
    have "a @ q = [] \<or> (\<exists>q0. a @ q = q0 @ ''/'')"
      using True assms(3) endswith_sep_split[of a] by (metis append_Nil2 append_assoc)
    with j show ?thesis by blast
  next
    case False2: False
    then have j: "join a (q @ name) = (a @ ''/'' @ q) @ name" using False by (simp add: join_def)
    have "\<exists>q0. a @ ''/'' @ q = q0 @ ''/''"
      using assms(3) by (metis append_Nil2 append_assoc)
    with j show ?thesis by blast
  qed
qed

lemma abspath_keeps_name:
  assumes "name \<noteq> []" "CHR ''/'' \<notin> set name" "name \<noteq> ''.''" "name \<noteq> ''..''"
    and "q = [] \<or> (\<exists>q0. q = q0 @ ''/'')"
  shows "endswith (abspath wd (q @ name)) name"
proof (cases "isabs (q @ name)")
  case True
  then show ?thesis using normpath_keeps_name[OF assms] by (simp add: abspath_def)
next
  case False
  obtain q' where "join wd (q @ name) = q' @ name" "q' = [] \<or> (\<exists>q0. q' = q0 @ ''/'')"
    using join_keeps_name[OF assms(1,2,5)] by blast
  then show ?thesis
    using False normpath_keeps_name[OF assms(1-4), of q'] by (simp add: abspath_def)
qed

section \<open>The dispatcher: what escapes, and what is checked first\<close>

lemma wrap_failure_not_uncaught: "fst (wrap_failure t e w) \<noteq> Inl (Uncaught x)"
  by (simp add: wrap_failure_def Let_def)

lemma dump_into_not_uncaught: "fst (dump_into t m f d w) \<noteq> Inl (Uncaught x)"
  by (auto simp: dump_into_def wrap_failure_def Let_def split: sum.splits prod.splits option.splits)

lemma write_text_not_uncaught: "fst (write_text t m f d w) \<noteq> Inl (Uncaught x)"
  by (auto simp: write_text_def wrap_failure_def Let_def split: sum.splits)

lemma export_to_csv_not_uncaught: "fst (export_to_csv d f h w) \<noteq> Inl (Uncaught x)"
  by (auto simp: export_to_csv_def wrap_failure_def Let_def
      split: sum.splits prod.splits option.splits list.splits)

lemma export_to_xml_not_uncaught: "fst (export_to_xml L d f r w) \<noteq> Inl (Uncaught x)"
  by (auto simp: export_to_xml_def wrap_failure_not_uncaught write_text_not_uncaught Let_def
      split: sum.splits)

lemma export_to_markdown_not_uncaught: "fst (export_to_markdown d f t w) \<noteq> Inl (Uncaught x)"
  by (auto simp: export_to_markdown_def wrap_failure_not_uncaught write_text_not_uncaught Let_def
      split: sum.splits)

lemma export_to_html_not_uncaught: "fst (export_to_html d f t w) \<noteq> Inl (Uncaught x)"
  by (auto simp: export_to_html_def wrap_failure_not_uncaught write_text_not_uncaught Let_def
      split: sum.splits)

lemma export_to_excel_not_uncaught: "fst (export_to_excel L d f s w) \<noteq> Inl (Uncaught x)"
  by (auto simp: export_to_excel_def wrap_failure_def Let_def split: prod.splits option.splits)

lemma export_to_sqlite_not_uncaught: "fst (export_to_sqlite L d f s w) \<noteq> Inl (Uncaught x)"
  by (auto simp: export_to_sqlite_def wrap_failure_def Let_def
      split: sum.splits prod.splits option.splits)

lemma dispatch_not_uncaught: "fst (dispatch L fmt d f w) \<noteq> Inl (Uncaught x)"
  unfolding dispatch_def export_to_json_def export_to_yaml_def export_to_pickle_def Let_def
  by (simp add: dump_into_not_uncaught export_to_csv_not_uncaught export_to_xml_not_uncaught
      export_to_markdown_not_uncaught export_to_html_not_uncaught export_to_excel_not_uncaught
      export_to_sqlite_not_uncaught)

lemma except_handler_dispatch: "except_handler fmt' (dispatch L fmt d f w) = dispatch L fmt d f w"
  using dispatch_not_uncaught[of L fmt d f w]
  by (cases "dispatch L fmt d f w") (auto simp: except_handler_def split: sum.splits failure.splits)

lemma export_data_after_path:
  "output_path cfg filename w = Inr (path, w1) \<Longrightarrow>
     export_data L cfg data filename format w
       = dispatch L (effective_format cfg filename format) data path w1"
  by (simp add: export_data_def Let_def except_handler_dispatch)

lemma export_data_path_failure:
  "output_path cfg filename w = Inl (e, w1) \<Longrightarrow>
     export_data L cfg data filename format w = (Inl (Uncaught e), w1)"
  by (simp add: export_data_def Let_def)

lemma export_data_wraps_after_path:
  "output_path cfg filename w = Inr pw \<Longrightarrow>
     fst (export_data L cfg data filename format w) \<noteq> Inl (Uncaught e)"
  by (cases pw) (simp add: export_data_after_path dispatch_not_uncaught)

lemma makedirs_output_w0: "makedirs ''./output'' w0 = Inr (w0\<lparr>dirs := {''./output''}\<rparr>)"
  by (subst makedirs.simps)
     (simp add: makedirs_parts_def path_split_def rfind_def rstrip_sep_def path_exists_def isdir_def
        mkdir_exist_ok_def mkdir_def w0_def Let_def)

lemma makedirs_output_blocked:
  "makedirs ''./output'' w_blocked
     = Inl (PyExn FileExistsError (''[Errno 17] File exists: '' @ str_repr ''./output''), w_blocked)"
  by (subst makedirs.simps)
     (simp add: makedirs_parts_def path_split_def rfind_def rstrip_sep_def path_exists_def isdir_def
        mkdir_exist_ok_def mkdir_def w_blocked_def w0_def Let_def)

lemma output_path_w0:
  "\<not> isabs filename \<Longrightarrow>
     output_path default_config filename w0
       = Inr (join ''./output'' filename, w0\<lparr>dirs := {''./output''}\<rparr>)"
  by (simp add: output_path_def default_config_def makedirs_output_w0)

text \<open>
  C2. The lines that create the output directory stand before the \<^verbatim>\<open>try\<close> of the
  dispatcher, so an error of \<^verbatim>\<open>os.makedirs\<close> is not wrapped. In a world where a regular
  file has the name of the output directory, any export to a relative file name ends
  with the \<^verbatim>\<open>FileExistsError\<close> itself, not with an \<^verbatim>\<open>ExportError\<close>. Once the path is
  resolved, no other exception escapes (\<open>export_data_wraps_after_path\<close>).
\<close>

theorem export_data_makedirs_error_escapes:
  "export_data L default_config data ''report.json'' format w_blocked
     = (Inl (Uncaught (PyExn FileExistsError (''[Errno 17] File exists: '' @ str_repr ''./output''))),
        w_blocked)"
  by (simp add: export_data_def Let_def output_path_def default_config_def
      makedirs_output_blocked isabs_def startswith_def)

lemma rstrip_sep_take: "\<exists>n. rstrip_sep s = take n s"
proof -
  have "rstrip_sep s = rev (drop (length (takeWhile (\<lambda>c. c = CHR ''/'') (rev s))) (rev s))"
    by (simp add: rstrip_sep_def dropWhile_eq_drop)
  then show ?thesis by (auto simp: rev_drop)
qed

lemma path_split_take: "\<exists>n. fst (path_split p) = take n p"
proof -
  define h where "h = take (nat (rfind (CHR ''/'') p + 1)) p"
  obtain n where "rstrip_sep h = take n h" using rstrip_sep_take by blast
  then have "rstrip_sep h = take (min n (nat (rfind (CHR ''/'') p + 1))) p"
    by (simp add: h_def min.commute)
  moreover have "fst (path_split p) = rstrip_sep h \<or> fst (path_split p) = h"
    by (simp add: path_split_def Let_def h_def)
  ultimately show ?thesis unfolding h_def by metis
qed

lemma makedirs_parts_take: "\<exists>n. fst (makedirs_parts name) = take n name"
proof (cases "snd (path_split name) = []")
  case True
  obtain n where n: "fst (path_split name) = take n name" using path_split_take by blast
  obtain m where "fst (path_split (take n name)) = take m (take n name)"
    using path_split_take by blast
  then have "fst (path_split (take n name)) = take (min m n) name" by simp
  with True n show ?thesis by (auto simp: makedirs_parts_def)
next
  case False
  then show ?thesis using path_split_take[of name] by (simp add: makedirs_parts_def)
qed

lemma leading_parts_mono: "leading_parts (take n name) \<subseteq> leading_parts name"
proof
  fix d assume "d \<in> leading_parts (take n name)"
  then obtain m where "d = take m (take n name)" by (auto simp: leading_parts_def)
  then have "d = take (min m n) name" by simp
  then show "d \<in> leading_parts name" unfolding leading_parts_def by blast
qed

lemma leading_parts_self: "name \<in> leading_parts name"
  unfolding leading_parts_def by (metis (mono_tags, lifting) mem_Collect_eq take_all order_refl)

text \<open>What a world may differ by after \<^verbatim>\<open>os.makedirs(name)\<close>, whether it failed or not.\<close>

lemma mkdir_exist_ok_frame:
  assumes "mkdir_exist_ok name w = Inr w1 \<or> mkdir_exist_ok name w = Inl (e, w1)"
  shows "files w1 = files w \<and> log w1 = log w \<and> dirs w1 \<subseteq> insert name (dirs w)"
  using assms
  by (auto simp: mkdir_exist_ok_def mkdir_def split: if_splits option.splits sum.splits)

lemma makedirs_frame:
  "makedirs name w = Inr w1 \<or> makedirs name w = Inl (e, w1) \<Longrightarrow>
     files w1 = files w \<and> log w1 = log w \<and> dirs w1 \<subseteq> dirs w \<union> leading_parts name"
proof (induction name w arbitrary: w1 e rule: makedirs.induct)
  case (1 name w)
  let ?head = "fst (makedirs_parts name)"
  let ?deep = "?head \<noteq> [] \<and> snd (makedirs_parts name) \<noteq> [] \<and> \<not> path_exists w ?head"
  have last_step: "files w1 = files w0' \<and> log w1 = log w0' \<and> dirs w1 \<subseteq> dirs w0' \<union> leading_parts name"
    if "mkdir_exist_ok name w0' = Inr w1 \<or> mkdir_exist_ok name w0' = Inl (e, w1)" for w0'
    using mkdir_exist_ok_frame[OF that] leading_parts_self[of name] by auto
  show ?case
  proof (cases ?deep)
    case False
    with "1.prems" have "mkdir_exist_ok name w = Inr w1 \<or> mkdir_exist_ok name w = Inl (e, w1)"
      by (subst (asm) makedirs.simps, subst (asm) makedirs.simps) (simp split: if_splits)
    then show ?thesis using last_step by blast
  next
    case True
    obtain n where n: "?head = take n name" using makedirs_parts_take by blast
    have sub: "leading_parts ?head \<subseteq> leading_parts name"
      unfolding n by (rule leading_parts_mono)
    have ih: "files w2 = files w \<and> log w2 = log w \<and> dirs w2 \<subseteq> dirs w \<union> leading_parts name"
      if "makedirs ?head w = Inr w2 \<or> makedirs ?head w = Inl (e2, w2)" for w2 e2
      using "1.IH"[OF True that] sub by auto
    from "1.prems" True
    have step: "(case makedirs ?head w of
           Inl (PyExn FileExistsError msg, w2) \<Rightarrow>
             if snd (makedirs_parts name) = ''.'' then Inr w2 else mkdir_exist_ok name w2
         | Inl (e2, w2) \<Rightarrow> Inl (e2, w2)
         | Inr w2 \<Rightarrow>
             if snd (makedirs_parts name) = ''.'' then Inr w2 else mkdir_exist_ok name w2) = Inr w1
       \<or> (case makedirs ?head w of
           Inl (PyExn FileExistsError msg, w2) \<Rightarrow>
             if snd (makedirs_parts name) = ''.'' then Inr w2 else mkdir_exist_ok name w2
         | Inl (e2, w2) \<Rightarrow> Inl (e2, w2)
         | Inr w2 \<Rightarrow>
             if snd (makedirs_parts name) = ''.'' then Inr w2 else mkdir_exist_ok name w2) = Inl (e, w1)"
      by (subst (asm) makedirs.simps, subst (asm) makedirs.simps) simp
    show ?thesis
    proof (cases "makedirs ?head w")
      case (Inr w2)
      with ih[of w2] have f: "files w2 = files w \<and> log w2 = log w \<and> dirs w2 \<subseteq> dirs w \<union> leading_parts name"
        by blast
      show ?thesis
      proof (cases "snd (makedirs_parts name) = ''.''")
        case True
        with step Inr f show ?thesis by simp
      next
        case False
        with step Inr have "mkdir_exist_ok name w2 = Inr w1 \<or> mkdir_exist_ok name w2 = Inl (e, w1)"
          by simp
        from last_step[OF this] f show ?thesis by auto
      qed
    next
      case (Inl ew)
      obtain e2 w2 where ew: "ew = (e2, w2)" by (cases ew)
      obtain c m where e2: "e2 = PyExn c m" by (cases e2)
      from ih[of w2 e2] Inl ew
      have f: "files w2 = files w \<and> log w2 = log w \<and> dirs w2 \<subseteq> dirs w \<union> leading_parts name"
        by blast
      show ?thesis
      proof (cases "c = FileExistsError")
        case c: True
        show ?thesis
        proof (cases "snd (makedirs_parts name) = ''.''")
          case True
          with step Inl ew e2 c f show ?thesis by simp
        next
          case False
          with step Inl ew e2 c
          have "mkdir_exist_ok name w2 = Inr w1 \<or> mkdir_exist_ok name w2 = Inl (e, w1)"
            by simp
          from last_step[OF this] f show ?thesis by auto
        qed
      next
        case False
        with step Inl ew e2 have "w1 = w2" by (cases c) simp_all
        with f show ?thesis by simp
      qed
    qed
  qed
qed

lemma output_path_frame:
  "output_path cfg filename w = Inr (path, w1) \<or> output_path cfg filename w = Inl (e, w1) \<Longrightarrow>
     files w1 = files w \<and> log w1 = log w
     \<and> dirs w1 \<subseteq> dirs w \<union> leading_parts (output_dir cfg)"
  using makedirs_frame[of "output_dir cfg" w w1 e]
  by (auto simp: output_path_def split: if_splits sum.splits prod.splits)

lemma open_w_log: "open_w f w = Inr w1 \<Longrightarrow> log w1 = log w"
  by (auto simp: open_w_def split: if_splits option.splits)

lemma export_to_xml_logs:
  "length (log (snd (export_to_xml L data f r w))) = Suc (length (log w))"
  by (auto simp: export_to_xml_def wrap_failure_def write_text_def logger_error_def
      logger_info_def write_file_def Let_def open_w_log split: sum.splits)

text \<open>
  Called on its own, the XML codec meets a value that is not a dictionary at
  \<^verbatim>\<open>data.items()\<close>: its handler wraps the \<^verbatim>\<open>AttributeError\<close>, and no file is opened.
\<close>

lemma export_to_xml_not_a_dict:
  assumes "\<not> is_dict data"
  shows "\<exists>msg cause. fst (export_to_xml L data filename root_element w)
            = Inl (ExportError msg (Some (PyExn AttributeError cause)))
         \<and> files (snd (export_to_xml L data filename root_element w)) = files w"
  using assms
  by (cases data)
     (simp_all add: export_to_xml_def items_of_def wrap_failure_def logger_error_def Let_def)

text \<open>
  C3. When the format resolves to \<^verbatim>\<open>xml\<close> and the value is not a dictionary, the
  dispatcher raises \<^verbatim>\<open>ExportError("XML export requires a dictionary")\<close>, with no cause,
  as soon as the output path is resolved: no file and no log line has been added, while
  the XML codec, had it been called, would have left a line in the log.
\<close>

theorem export_data_xml_requires_dict:
  assumes "\<not> is_dict data"
    and "effective_format cfg filename format = ''xml''"
    and "output_path cfg filename w = Inr (path, w1)"
  shows "export_data L cfg data filename format w
           = (Inl (ExportError ''XML export requires a dictionary'' None), w1)
       \<and> files w1 = files w \<and> log w1 = log w
       \<and> log (snd (export_to_xml L data path ''data'' w1)) \<noteq> log w1"
proof -
  have "export_data L cfg data filename format w
           = (Inl (ExportError ''XML export requires a dictionary'' None), w1)"
    using assms by (simp add: export_data_after_path dispatch_def)
  moreover have "files w1 = files w \<and> log w1 = log w"
    using output_path_frame[of cfg filename w path w1] assms(3) by simp
  moreover have "log (snd (export_to_xml L data path ''data'' w1)) \<noteq> log w1"
    using export_to_xml_logs[of L data path "''data''" w1] by auto
  ultimately show ?thesis by simp
qed

theorem export_data_xml_requires_dict_witness:
  "export_data sample_libs default_config (PList [PInt 1, PInt 2, PInt 3]) ''bad'' (Some ''xml'') w0
     = (Inl (ExportError ''XML export requires a dictionary'' None),
        w0\<lparr>dirs := {''./output''}\<rparr>)
   \<and> export_data sample_libs default_config (PInt 7) ''bad.XML'' None w0
     = (Inl (ExportError ''XML export requires a dictionary'' None),
        w0\<lparr>dirs := {''./output''}\<rparr>)"
proof -
  have p: "output_path default_config ''bad'' w0 = Inr (''./output/bad'', w0\<lparr>dirs := {''./output''}\<rparr>)"
    "output_path default_config ''bad.XML'' w0 = Inr (''./output/bad.XML'', w0\<lparr>dirs := {''./output''}\<rparr>)"
    by (simp_all add: output_path_w0 isabs_def startswith_def join_def endswith_def)
  have f: "effective_format default_config ''bad'' (Some ''xml'') = ''xml''"
    "effective_format default_config ''bad.XML'' None = ''xml''"
    by code_simp+
  have d: "\<not> is_dict (PList [PInt 1, PInt 2, PInt 3])" "\<not> is_dict (PInt 7)" by simp_all
  from export_data_xml_requires_dict[OF d(1) f(1) p(1)]
       export_data_xml_requires_dict[OF d(2) f(2) p(2)]
  show ?thesis by blast
qed

lemma dispatch_records_violation:
  assumes "requires_records fmt" "\<not> (is_list data \<and> list_all is_dict (the_list data))"
  shows "\<exists>msg. dispatch L fmt data path w = (Inl (ExportError msg None), w)"
proof -
  from assms(1) consider "fmt = ''csv''" | "fmt = ''xlsx''" | "fmt = ''excel''"
    | "fmt = ''db''" | "fmt = ''sqlite''"
    by (auto simp: requires_records_def)
  then show ?thesis
  proof cases
    case 1 then show ?thesis using assms(2) by (simp add: dispatch_def)
  next
    case 2 then show ?thesis using assms(2) by (simp add: dispatch_def)
  next
    case 3 then show ?thesis using assms(2) by (simp add: dispatch_def)
  next
    case 4 then show ?thesis using assms(2) by (simp add: dispatch_def)
  next
    case 5 then show ?thesis using assms(2) by (simp add: dispatch_def)
  qed
qed

lemma dispatch_mapping_violation:
  assumes "requires_mapping fmt" "\<not> is_dict data"
  shows "\<exists>msg. dispatch L fmt data path w = (Inl (ExportError msg None), w)"
proof -
  from assms(1) consider "fmt = ''xml''" | "fmt = ''md''" | "fmt = ''markdown''" | "fmt = ''html''"
    by (auto simp: requires_mapping_def)
  then show ?thesis
  proof cases
    case 1 then show ?thesis using assms(2) by (simp add: dispatch_def)
  next
    case 2 then show ?thesis using assms(2) by (simp add: dispatch_def)
  next
    case 3 then show ?thesis using assms(2) by (simp add: dispatch_def)
  next
    case 4 then show ?thesis using assms(2) by (simp add: dispatch_def)
  qed
qed

lemma dispatch_fails_shape_test:
  "fails_shape_test fmt data \<Longrightarrow>
     \<exists>msg. dispatch L fmt data path w = (Inl (ExportError msg None), w)"
  using dispatch_records_violation dispatch_mapping_violation
  by (cases "requires_records fmt"; cases "requires_mapping fmt")
     (simp_all add: fails_shape_test_def)

text \<open>
  C10, as the specification states it, at \<^verbatim>\<open>[{"a": {"b": 1}}]\<close> exported to SQLite. The
  value is not a list of flat records, but it is a list of dictionaries and passes the
  test of the dispatcher. The codec connects, which makes the file, and then fails to
  bind the dictionary: the call ends with an \<^verbatim>\<open>ExportError\<close> and the file is there.
\<close>

theorem nested_record_leaves_sqlite_file:
  "\<not> is_record_set nested_records
   \<and> files w0 ''./output/t.db'' = None
   \<and> fst (export_data sample_libs default_config nested_records ''t'' (Some ''sqlite'') w0)
     = Inl (ExportError
         (''Failed to export data to SQLite: Error binding parameter 1: type ''
          @ [CHR 0x27] @ ''dict'' @ [CHR 0x27] @ '' is not supported'')
         (Some (PyExn ProgrammingError
           (''Error binding parameter 1: type '' @ [CHR 0x27] @ ''dict'' @ [CHR 0x27]
            @ '' is not supported''))))
   \<and> files (snd (export_data sample_libs default_config nested_records ''t'' (Some ''sqlite'') w0))
       ''./output/t.db'' = Some (Text [])"
  by code_simp

text \<open>
  C10, amended. When the value fails the shape test of the dispatcher for the resolved
  format (not a list of dictionaries for the tabular formats, not a dictionary for the
  tree formats), the call ends with an \<^verbatim>\<open>ExportError\<close> of the dispatcher (or, if the
  output directory could not be made, with the error of \<^verbatim>\<open>os.makedirs\<close>); the files
  are what they were, no codec has logged anything, and only the output directory and
  its missing parents may be new.
\<close>

theorem shape_test_failure_creates_no_file:
  assumes "fails_shape_test (effective_format cfg filename format) data"
  shows "files (snd (export_data L cfg data filename format w)) = files w
       \<and> log (snd (export_data L cfg data filename format w)) = log w
       \<and> dirs (snd (export_data L cfg data filename format w))
           \<subseteq> dirs w \<union> leading_parts (output_dir cfg)
       \<and> ((\<exists>msg. fst (export_data L cfg data filename format w) = Inl (ExportError msg None))
          \<or> (\<exists>e w1. makedirs (output_dir cfg) w = Inl (e, w1)
                \<and> fst (export_data L cfg data filename format w) = Inl (Uncaught e)))"
proof (cases "output_path cfg filename w")
  case (Inl ew)
  obtain e w1 where ew: "ew = (e, w1)" by (cases ew)
  from Inl ew have "makedirs (output_dir cfg) w = Inl (e, w1)"
    by (auto simp: output_path_def split: if_splits sum.splits)
  with Inl ew output_path_frame[of cfg filename w _ w1 e] show ?thesis
    by (auto simp: export_data_path_failure)
next
  case (Inr pw)
  obtain path w1 where pw: "pw = (path, w1)" by (cases pw)
  from dispatch_fails_shape_test[OF assms, of L path w1]
  obtain msg where "dispatch L (effective_format cfg filename format) data path w1
      = (Inl (ExportError msg None), w1)" by blast
  with Inr pw output_path_frame[of cfg filename w path w1] show ?thesis
    by (simp add: export_data_after_path)
qed

theorem shape_test_failure_creates_no_file_witness:
  "fst (export_data sample_libs default_config (PStr ''scalar'') ''table.csv'' None w0)
     = Inl (ExportError ''CSV export requires a list of dictionaries'' None)
   \<and> files (snd (export_data sample_libs default_config (PStr ''scalar'') ''table.csv'' None w0))
     = Map.empty"
proof -
  have v: "fails_shape_test (effective_format default_config ''table.csv'' None) (PStr ''scalar'')"
    by code_simp
  have r: "fst (export_data sample_libs default_config (PStr ''scalar'') ''table.csv'' None w0)
     = Inl (ExportError ''CSV export requires a list of dictionaries'' None)"
    by code_simp
  from shape_test_failure_creates_no_file[OF v, of sample_libs w0] r
  show ?thesis by (simp add: w0_def)
qed

section \<open>The format token\<close>

lemma rfind_append_notin: "c \<notin> set t \<Longrightarrow> rfind c (p @ t) = rfind c p"
  by (auto simp: rfind_def takeWhile_append)

lemma rfind_last_occurrence: "c \<notin> set t \<Longrightarrow> rfind c (p @ c # t) = int (length p)"
  by (auto simp: rfind_def takeWhile_append)

lemma takeWhile_shorter:
  assumes "c \<in> set xs"
  shows "length (takeWhile (\<lambda>x. x \<noteq> c) xs) < length xs"
proof -
  have "dropWhile (\<lambda>x. x \<noteq> c) xs \<noteq> []"
    using assms by (auto simp: dropWhile_eq_Nil_conv)
  then have "0 < length (dropWhile (\<lambda>x. x \<noteq> c) xs)" by simp
  moreover have "length (takeWhile (\<lambda>x. x \<noteq> c) xs) + length (dropWhile (\<lambda>x. x \<noteq> c) xs)
      = length xs"
    by (metis length_append takeWhile_dropWhile_id)
  ultimately show ?thesis by linarith
qed

lemma rfind_range: "- 1 \<le> rfind c s \<and> rfind c s < int (length s)"
proof (cases "c \<in> set s")
  case True
  then have "length (takeWhile (\<lambda>x. x \<noteq> c) (rev s)) < length s"
    using takeWhile_shorter[of c "rev s"] by simp
  with True show ?thesis by (simp add: rfind_def)
next
  case False
  then show ?thesis by (simp add: rfind_def)
qed

lemma splitext_extension:
  assumes "CHR ''/'' \<notin> set name" "\<exists>c \<in> set name. c \<noteq> CHR ''.''"
    and "CHR ''/'' \<notin> set tok" "CHR ''.'' \<notin> set tok"
  shows "splitext (pre @ name @ ''.'' @ tok) = (pre @ name, ''.'' @ tok)"
proof -
  let ?p = "pre @ name @ ''.'' @ tok"
  have dot: "rfind (CHR ''.'') ?p = int (length pre + length name)"
    using rfind_last_occurrence[OF assms(4), of "pre @ name"] by simp
  have "CHR ''/'' \<notin> set (name @ ''.'' @ tok)" using assms(1,3) by simp
  then have sep: "rfind (CHR ''/'') ?p = rfind (CHR ''/'') pre"
    using rfind_append_notin[of "CHR ''/''" "name @ ''.'' @ tok" pre] by simp
  define k where "k = nat (rfind (CHR ''/'') pre + 1)"
  have k: "k \<le> length pre" "rfind (CHR ''/'') pre + 1 = int k"
    using rfind_range[of "CHR ''/''" pre] by (auto simp: k_def)
  have lt: "rfind (CHR ''/'') pre < int (length pre + length name)"
    using rfind_range[of "CHR ''/''" pre] by auto
  have n: "nat (int (length pre + length name) - int k) = length pre - k + length name"
    using k(1) by auto
  have slice: "take (length pre - k + length name) (drop k ?p) = drop k pre @ name"
    using k(1) by simp
  have ex: "list_ex (\<lambda>c. c \<noteq> CHR ''.'') (drop k pre @ name)"
    using assms(2) by (auto simp: list_ex_iff)
  show ?thesis
    unfolding splitext_def Let_def dot sep k(2) nat_int n slice
    using lt ex k(2) by simp
qed

lemma lower_char_dot: "lower_char c = CHR ''.'' \<Longrightarrow> c = CHR ''.''"
proof (cases "65 \<le> (of_char c :: nat) \<and> (of_char c :: nat) \<le> 90")
  case True
  assume a: "lower_char c = CHR ''.''"
  from True have "(of_char (lower_char c) :: nat) = of_char c + 32"
    by (simp add: lower_char_def Let_def)
  with a have "(of_char c :: nat) + 32 = 46" by simp
  with True show ?thesis by linarith
next
  case False
  assume "lower_char c = CHR ''.''"
  with False show ?thesis by (auto simp: lower_char_def Let_def split: if_splits)
qed

lemma lstrip_dot_lower:
  "CHR ''.'' \<notin> set tok \<Longrightarrow> lstrip_dot (lower (''.'' @ tok)) = lower tok"
proof -
  assume t: "CHR ''.'' \<notin> set tok"
  have d: "lower_char (CHR ''.'') = CHR ''.''" by (simp add: lower_char_def Let_def)
  have "dropWhile (\<lambda>c. c = CHR ''.'') (lower tok) = lower tok"
  proof (cases tok)
    case Nil
    then show ?thesis by (simp add: lower_def)
  next
    case (Cons x xs)
    with t have "lower_char x \<noteq> CHR ''.''" using lower_char_dot[of x] by auto
    with Cons show ?thesis by (simp add: lower_def)
  qed
  with d show ?thesis by (simp add: lstrip_dot_def lower_def)
qed

lemma effective_format_of_extension:
  assumes "CHR ''/'' \<notin> set name" "\<exists>c \<in> set name. c \<noteq> CHR ''.''"
    and "CHR ''/'' \<notin> set tok" "CHR ''.'' \<notin> set tok"
  shows "effective_format cfg (pre @ name @ ''.'' @ tok) None = lower tok"
  using splitext_extension[OF assms, of pre] lstrip_dot_lower[OF assms(4)]
  by (simp add: effective_format_def Let_def)

lemma dispatch_unsupported:
  "f \<notin> set supported_tokens \<Longrightarrow>
     dispatch L f data path w = (Inl (ExportError (''Unsupported export format: '' @ f) None), w)"
  by (simp add: dispatch_def supported_tokens_def)

text \<open>
  C4, as the specification states it, at its own examples: a format argument is
  compared as it is given, so \<^verbatim>\<open>CSV\<close>, \<^verbatim>\<open>.csv\<close>, \<^verbatim>\<open>Md\<close> and \<^verbatim>\<open>XLSX\<close> are refused as
  unsupported.
\<close>

theorem explicit_format_token_not_normalised:
  "fst (export_data sample_libs default_config (PList []) ''report'' (Some ''CSV'') w0)
     = Inl (ExportError ''Unsupported export format: CSV'' None)
   \<and> fst (export_data sample_libs default_config (PList []) ''report'' (Some ''.csv'') w0)
     = Inl (ExportError ''Unsupported export format: .csv'' None)
   \<and> fst (export_data sample_libs default_config (PDict []) ''report'' (Some ''Md'') w0)
     = Inl (ExportError ''Unsupported export format: Md'' None)
   \<and> fst (export_data sample_libs default_config (PList []) ''report'' (Some ''XLSX'') w0)
     = Inl (ExportError ''Unsupported export format: XLSX'' None)"
  by code_simp

text \<open>
  C4, amended. A token taken from the extension of the file name is put in lower case
  and loses its dot before the dispatch: a file name that ends with a name, a dot and
  a token gives the token in lower case. A token given as the format argument is kept
  as it is, and one that is not, letter for letter, among the tokens of the dispatcher
  ends the call with \<^verbatim>\<open>ExportError("Unsupported export format: ...")\<close>.
\<close>

theorem format_token_normalised_from_extension_only:
  assumes "CHR ''/'' \<notin> set name" "\<exists>c \<in> set name. c \<noteq> CHR ''.''"
    and "CHR ''/'' \<notin> set tok" "CHR ''.'' \<notin> set tok"
  shows "effective_format cfg (pre @ name @ ''.'' @ tok) None = lower tok
       \<and> effective_format cfg filename (Some f) = f
       \<and> (f \<notin> set supported_tokens \<longrightarrow> output_path cfg filename w = Inr (path, w1) \<longrightarrow>
            export_data L cfg data filename (Some f) w
              = (Inl (ExportError (''Unsupported export format: '' @ f) None), w1))"
proof -
  have "effective_format cfg filename (Some f) = f" by (simp add: effective_format_def)
  then show ?thesis
    using effective_format_of_extension[OF assms, of cfg pre]
    by (simp add: export_data_after_path dispatch_unsupported)
qed

theorem format_token_normalised_from_extension_only_witness:
  "effective_format default_config ''report.CSV'' None = ''csv''
   \<and> effective_format default_config ''dir.v2/notes.Md'' None = ''md''
   \<and> export_data sample_libs default_config (PList []) ''report'' (Some ''CSV'') w0
     = (Inl (ExportError ''Unsupported export format: CSV'' None), w0\<lparr>dirs := {''./output''}\<rparr>)"
proof -
  have p: "output_path default_config ''report'' w0
      = Inr (''./output/report'', w0\<lparr>dirs := {''./output''}\<rparr>)"
    by (simp add: output_path_w0 isabs_def startswith_def join_def endswith_def)
  have u: "''CSV'' \<notin> set supported_tokens" by (simp add: supported_tokens_def)
  have 1: "CHR ''/'' \<notin> set ''report''" "\<exists>c \<in> set ''report''. c \<noteq> CHR ''.''"
    "CHR ''/'' \<notin> set ''CSV''" "CHR ''.'' \<notin> set ''CSV''" by simp_all
  have 2: "CHR ''/'' \<notin> set ''notes''" "\<exists>c \<in> set ''notes''. c \<noteq> CHR ''.''"
    "CHR ''/'' \<notin> set ''Md''" "CHR ''.'' \<notin> set ''Md''" by simp_all
  have l: "lower ''CSV'' = ''csv''" "lower ''Md'' = ''md''" by code_simp+
  from format_token_normalised_from_extension_only[OF 1, of default_config "[]" "''report''"
         "''CSV''" w0 "''./output/report''" "w0\<lparr>dirs := {''./output''}\<rparr>" sample_libs "PList []"]
       format_token_normalised_from_extension_only[OF 2, of default_config "''dir.v2/''"]
       p u l
  show ?thesis by simp
qed

lemma endswith_last: "suf \<noteq> [] \<Longrightarrow> endswith s suf \<Longrightarrow> last s = last suf"
  by (metis append_take_drop_id endswith_def last_appendR)

lemma ensure_ext_appends:
  assumes "name \<noteq> []" "last (lower name) \<noteq> last ext \<or> (length ext \<le> length name \<and> \<not> endswith (lower name) ext)"
    and "ext \<noteq> []"
  shows "ensure_ext ext (q @ name) = q @ name @ ext"
proof -
  have "\<not> endswith (lower (q @ name)) ext"
  proof
    assume e: "endswith (lower (q @ name)) ext"
    have l: "lower (q @ name) = lower q @ lower name" by (simp add: lower_def)
    have n: "lower name \<noteq> []" using assms(1) by (simp add: lower_def)
    from assms(2) show False
    proof
      assume "last (lower name) \<noteq> last ext"
      moreover have "last (lower (q @ name)) = last (lower name)" using l n by simp
      ultimately show False using endswith_last[OF assms(3) e] by simp
    next
      assume a: "length ext \<le> length name \<and> \<not> endswith (lower name) ext"
      then have "length ext \<le> length (lower name)" by (simp add: lower_def)
      from endswith_append_long[OF this, of "lower q"] e l a show False by simp
    qed
  qed
  then show ?thesis by (simp add: ensure_ext_def)
qed

lemma ensure_ext_keeps:
  "endswith (lower filename) ext \<Longrightarrow> ensure_ext ext filename = filename"
  by (simp add: ensure_ext_def)

lemma output_path_keeps_name:
  assumes "name \<noteq> []" "CHR ''/'' \<notin> set name"
    and "output_path cfg name w = Inr (path, w1)"
  shows "\<exists>q. path = q @ name \<and> (q = [] \<or> (\<exists>q0. q = q0 @ ''/''))"
proof (cases "output_dir cfg \<noteq> [] \<and> \<not> isabs name")
  case True
  with assms(3) have "path = join (output_dir cfg) name"
    by (auto simp: output_path_def split: sum.splits prod.splits)
  then show ?thesis using join_keeps_name[OF assms(1,2), of "[]" "output_dir cfg"] by simp
next
  case False
  with assms(3) have "path = name" by (auto simp: output_path_def)
  then show ?thesis by simp
qed

lemma export_to_json_path:
  "fst (export_to_json L data filename pretty w) = Inr p \<Longrightarrow>
     p = abspath (cwd w) (ensure_ext ''.json'' filename)"
  by (auto simp: export_to_json_def dump_into_def wrap_failure_def Let_def
      split: sum.splits prod.splits option.splits if_splits)

lemma dispatch_json: "dispatch L ''json'' data path w = export_to_json L data path True w"
  by (simp add: dispatch_def)

text \<open>
  C5. Once the output path is resolved, the call dispatches on the format argument
  when there is one, whatever the file name; without one, on the extension of the file
  name when it has one, whatever the default; and on the configured default otherwise.
  With the file name \<^verbatim>\<open>x.yaml\<close> and the format \<^verbatim>\<open>json\<close> the JSON codec runs, and a path
  that is returned ends with \<^verbatim>\<open>x.yaml.json\<close>.
\<close>

theorem format_resolution_precedence:
  "(output_path cfg filename w = Inr (path, w1) \<longrightarrow>
      export_data L cfg data filename (Some f) w = dispatch L f data path w1
    \<and> (snd (splitext filename) \<noteq> [] \<longrightarrow>
          export_data L cfg data filename None w
            = dispatch L (lstrip_dot (lower (snd (splitext filename)))) data path w1)
    \<and> (snd (splitext filename) = [] \<longrightarrow>
          export_data L cfg data filename None w = dispatch L (default_format cfg) data path w1))
   \<and> (output_path cfg ''x.yaml'' w = Inr (path, w1) \<longrightarrow>
          export_data L cfg data ''x.yaml'' (Some ''json'') w = export_to_json L data path True w1)
   \<and> (fst (export_data L cfg data ''x.yaml'' (Some ''json'') w) = Inr p \<longrightarrow>
          endswith p ''x.yaml.json'')"
proof (intro conjI impI)
  assume o: "output_path cfg filename w = Inr (path, w1)"
  show "export_data L cfg data filename (Some f) w = dispatch L f data path w1"
    using o by (simp add: export_data_after_path effective_format_def)
  show "export_data L cfg data filename None w
          = dispatch L (lstrip_dot (lower (snd (splitext filename)))) data path w1"
    if "snd (splitext filename) \<noteq> []"
    using o that by (simp add: export_data_after_path effective_format_def Let_def)
  show "export_data L cfg data filename None w = dispatch L (default_format cfg) data path w1"
    if "snd (splitext filename) = []"
    using o that by (simp add: export_data_after_path effective_format_def Let_def)
next
  assume o: "output_path cfg ''x.yaml'' w = Inr (path, w1)"
  show "export_data L cfg data ''x.yaml'' (Some ''json'') w = export_to_json L data path True w1"
    using o by (simp add: export_data_after_path effective_format_def dispatch_json)
next
  assume r: "fst (export_data L cfg data ''x.yaml'' (Some ''json'') w) = Inr p"
  show "endswith p ''x.yaml.json''"
  proof (cases "output_path cfg ''x.yaml'' w")
    case (Inl ew)
    obtain e w1 where "ew = (e, w1)" by (cases ew)
    with Inl r show ?thesis by (simp add: export_data_path_failure)
  next
    case (Inr pw)
    obtain path w1 where pw: "pw = (path, w1)" by (cases pw)
    from Inr pw obtain q where q: "path = q @ ''x.yaml''" "q = [] \<or> (\<exists>q0. q = q0 @ ''/'')"
      using output_path_keeps_name[of "''x.yaml''" cfg w path w1] by auto
    have e: "ensure_ext ''.json'' path = q @ ''x.yaml.json''"
      unfolding q(1) using ensure_ext_appends[of "''x.yaml''" "''.json''" q]
      by (simp add: lower_def lower_char_def endswith_def)
    from r Inr pw have "fst (export_to_json L data path True w1) = Inr p"
      by (simp add: export_data_after_path effective_format_def dispatch_json)
    then have "p = abspath (cwd w1) (q @ ''x.yaml.json'')"
      using export_to_json_path e by metis
    then show ?thesis
      using abspath_keeps_name[of "''x.yaml.json''" q "cwd w1"] q(2) by simp
  qed
qed

theorem format_resolution_precedence_witness:
  "fst (export_data sample_libs default_config (PList [PInt 1]) ''x.yaml'' (Some ''json'') w0)
     = Inr ''/home/user/output/x.yaml.json''
   \<and> files (snd (export_data sample_libs default_config (PList [PInt 1]) ''x.yaml'' (Some ''json'') w0))
       ''./output/x.yaml.json'' = Some (Text ''[1]'')
   \<and> endswith ''/home/user/output/x.yaml.json'' ''x.yaml.json''"
proof -
  have p: "output_path default_config ''x.yaml'' w0
      = Inr (''./output/x.yaml'', w0\<lparr>dirs := {''./output''}\<rparr>)"
    by (simp add: output_path_w0 isabs_def startswith_def join_def endswith_def)
  have j: "fst (export_to_json sample_libs (PList [PInt 1]) ''./output/x.yaml'' True
                   (w0\<lparr>dirs := {''./output''}\<rparr>)) = Inr ''/home/user/output/x.yaml.json''"
    by code_simp
  have f: "files (snd (export_to_json sample_libs (PList [PInt 1]) ''./output/x.yaml'' True
                   (w0\<lparr>dirs := {''./output''}\<rparr>))) ''./output/x.yaml.json'' = Some (Text ''[1]'')"
    by code_simp
  note t = format_resolution_precedence[of default_config "''x.yaml''" w0 "''./output/x.yaml''"
      "w0\<lparr>dirs := {''./output''}\<rparr>" sample_libs "PList [PInt 1]" "''json''"
      "''/home/user/output/x.yaml.json''"]
  from t p have e: "export_data sample_libs default_config (PList [PInt 1]) ''x.yaml'' (Some ''json'') w0
      = export_to_json sample_libs (PList [PInt 1]) ''./output/x.yaml'' True (w0\<lparr>dirs := {''./output''}\<rparr>)"
    by blast
  from t e j have "endswith ''/home/user/output/x.yaml.json'' ''x.yaml.json''" by simp
  with e j f show ?thesis by simp
qed



section \<open>The extension of the output path\<close>

lemma join_append: "a \<noteq> [] \<Longrightarrow> join d (a @ b) = join d a @ b"
  by (cases a) (auto simp: join_def startswith_def)

lemma output_path_append:
  assumes "a \<noteq> []" "output_path cfg a w = Inr (path, w1)"
  shows "output_path cfg (a @ b) w = Inr (path @ b, w1)"
proof -
  have i: "isabs (a @ b) = isabs a" using assms(1) by (cases a) (auto simp: isabs_def startswith_def)
  show ?thesis
    using assms(2) join_append[OF assms(1), of "output_dir cfg" b]
    by (auto simp: output_path_def i split: if_splits sum.splits prod.splits)
qed

lemma output_path_append_fails:
  assumes "a \<noteq> []" "output_path cfg a w = Inl e"
  shows "output_path cfg (a @ b) w = Inl e"
proof -
  have i: "isabs (a @ b) = isabs a" using assms(1) by (cases a) (auto simp: isabs_def startswith_def)
  show ?thesis
    using assms(2) by (auto simp: output_path_def i split: if_splits sum.splits prod.splits)
qed

lemma export_to_json_same_target:
  "ensure_ext ''.json'' f = ensure_ext ''.json'' g \<Longrightarrow>
     export_to_json L data f pretty w = export_to_json L data g pretty w"
  by (simp add: export_to_json_def Let_def)

text \<open>
  C6. Exporting to JSON under the file names \<^verbatim>\<open>out\<close> and \<^verbatim>\<open>out.json\<close> is the same call:
  same outcome, same world, and a path that is returned ends with \<^verbatim>\<open>out.json\<close>. The
  extension is added only to a file name that does not already end with it, whatever
  the case of its letters, so adding it twice is adding it once.
\<close>

theorem json_extension_idempotent:
  "export_data L cfg v ''out'' (Some ''json'') w = export_data L cfg v ''out.json'' (Some ''json'') w
   \<and> (fst (export_data L cfg v ''out'' (Some ''json'') w) = Inr p \<longrightarrow> endswith p ''out.json'')
   \<and> (endswith (lower filename) ''.json'' \<longrightarrow> ensure_ext ''.json'' filename = filename)
   \<and> ensure_ext ''.json'' (ensure_ext ''.json'' filename) = ensure_ext ''.json'' filename"
proof (intro conjI impI)
  show "ensure_ext ''.json'' filename = filename" if "endswith (lower filename) ''.json''"
    using that by (rule ensure_ext_keeps)
  have l: "lower ''.json'' = ''.json''" by code_simp
  show "ensure_ext ''.json'' (ensure_ext ''.json'' filename) = ensure_ext ''.json'' filename"
  proof (cases "endswith (lower filename) ''.json''")
    case True
    then show ?thesis by (simp add: ensure_ext_def)
  next
    case False
    have "endswith (lower (filename @ ''.json'')) ''.json''"
      using endswith_append_same[of "lower filename" "''.json''"] l by (simp add: lower_def)
    with False show ?thesis by (simp add: ensure_ext_def)
  qed
next
  show eq: "export_data L cfg v ''out'' (Some ''json'') w
      = export_data L cfg v ''out.json'' (Some ''json'') w"
  proof (cases "output_path cfg ''out'' w")
    case (Inl ew)
    obtain e w1 where ew: "ew = (e, w1)" by (cases ew)
    from output_path_append_fails[OF _ Inl, of "''.json''"] Inl ew show ?thesis
      by (simp add: export_data_path_failure)
  next
    case (Inr pw)
    obtain path w1 where pw: "pw = (path, w1)" by (cases pw)
    from Inr pw obtain q where q: "path = q @ ''out''"
      using output_path_keeps_name[of "''out''" cfg w path w1] by auto
    have 1: "ensure_ext ''.json'' path = path @ ''.json''"
      unfolding q using ensure_ext_appends[of "''out''" "''.json''" q]
      by (simp add: lower_def lower_char_def)
    have "endswith (lower (path @ ''.json'')) ''.json''"
      using endswith_append_same[of "lower path" "''.json''"]
      by (simp add: lower_def lower_char_def)
    then have 2: "ensure_ext ''.json'' (path @ ''.json'') = path @ ''.json''"
      by (rule ensure_ext_keeps)
    from Inr pw have o: "output_path cfg ''out.json'' w = Inr (path @ ''.json'', w1)"
      using output_path_append[of "''out''" cfg w path w1 "''.json''"] by simp
    show ?thesis
      using Inr pw o export_to_json_same_target[of path "path @ ''.json''" L v True w1] 1 2
      by (simp add: export_data_after_path effective_format_def dispatch_json)
  qed
  show "endswith p ''out.json''" if r: "fst (export_data L cfg v ''out'' (Some ''json'') w) = Inr p"
  proof (cases "output_path cfg ''out.json'' w")
    case (Inl ew)
    obtain e w1 where "ew = (e, w1)" by (cases ew)
    with Inl r eq show ?thesis by (simp add: export_data_path_failure)
  next
    case (Inr pw)
    obtain path w1 where pw: "pw = (path, w1)" by (cases pw)
    from Inr pw obtain q where q: "path = q @ ''out.json''" "q = [] \<or> (\<exists>q0. q = q0 @ ''/'')"
      using output_path_keeps_name[of "''out.json''" cfg w path w1] by auto
    have "endswith (lower path) ''.json''"
      unfolding q(1) using endswith_append_long[of "''.json''" "lower ''out.json''" "lower q"]
      by (simp add: lower_def lower_char_def endswith_def)
    then have e: "ensure_ext ''.json'' path = path" by (rule ensure_ext_keeps)
    from r eq Inr pw have "fst (export_to_json L v path True w1) = Inr p"
      by (simp add: export_data_after_path effective_format_def dispatch_json)
    then have "p = abspath (cwd w1) (q @ ''out.json'')"
      using export_to_json_path e q(1) by metis
    then show ?thesis
      using abspath_keeps_name[of "''out.json''" q "cwd w1"] q(2) by simp
  qed
qed

theorem json_extension_idempotent_witness:
  "fst (export_data sample_libs default_config (PDict [(''k'', PNone)]) ''out'' (Some ''json'') w0)
     = Inr ''/home/user/output/out.json''
   \<and> fst (export_data sample_libs default_config (PDict [(''k'', PNone)]) ''out.json'' (Some ''json'') w0)
     = Inr ''/home/user/output/out.json''
   \<and> ensure_ext ''.json'' ''Out.JSON'' = ''Out.JSON''"
proof -
  have a: "fst (export_data sample_libs default_config (PDict [(''k'', PNone)]) ''out.json'' (Some ''json'') w0)
     = Inr ''/home/user/output/out.json''"
    by code_simp
  have b: "endswith (lower ''Out.JSON'') ''.json''" by code_simp
  note t = json_extension_idempotent[of sample_libs default_config "PDict [(''k'', PNone)]" w0
      "''/home/user/output/out.json''" "''Out.JSON''"]
  from t a b show ?thesis by simp
qed


end
